theory Spec2Isabelle
  imports Complex_Main "HOL-Library.Word" "HOL-Library.Sublist"
begin

section \<open>Strings and regular expressions of the host language\<close>

text \<open>
  A JavaScript string is a sequence of UTF-16 code units. Literals of the source are
  written \<open>js ''...''\<close>.
\<close>

type_synonym code_unit = "16 word"
type_synonym jsstring = "code_unit list"

definition js :: "string \<Rightarrow> jsstring" where
  "js s = map of_char s"

text \<open>
  The class \<open>\s\<close> of a JavaScript regular expression: the WhiteSpace and LineTerminator
  code points (tab, line feed, vertical tab, form feed, carriage return, space, no-break
  space, the Unicode space separators, line and paragraph separator, byte order mark).
\<close>

definition is_whitespace :: "code_unit \<Rightarrow> bool" where
  "is_whitespace c = (c \<in> set [0x9, 0xA, 0xB, 0xC, 0xD, 0x20, 0xA0, 0x1680, 0x2000, 0x2001,
     0x2002, 0x2003, 0x2004, 0x2005, 0x2006, 0x2007, 0x2008, 0x2009, 0x200A, 0x2028, 0x2029,
     0x202F, 0x205F, 0x3000, 0xFEFF])"

text \<open>\<open>s.replace(/\s/g, "")\<close>: every whitespace code unit is removed.\<close>

definition strip_whitespace :: "jsstring \<Rightarrow> jsstring" where
  "strip_whitespace s = filter (\<lambda>c. \<not> is_whitespace c) s"

text \<open>\<open>s.startsWith(p)\<close> and \<open>s.substring(n)\<close>.\<close>

definition startsWith :: "jsstring \<Rightarrow> jsstring \<Rightarrow> bool" where
  "startsWith s p = (take (length p) s = p)"

definition substring :: "jsstring \<Rightarrow> nat \<Rightarrow> jsstring" where
  "substring s n = drop n s"

text \<open>
  The fragment of regular expressions the source uses: a character class, a literal, an
  alternative, a sequence, an optional group and a bounded repetition \<open>r{n}\<close>.
  \<open>rmatch r s\<close> lists, in the order a backtracking matcher tries them, the remainders of
  \<open>s\<close> after each way \<open>r\<close> matches a prefix of it; \<open>test\<close> is \<open>RegExp.prototype.test\<close> for
  an expression anchored with \<open>^\<close> and \<open>$\<close>: some way of matching leaves nothing over.
\<close>

datatype regex =
    Eps
  | Chars "code_unit list"
  | Lit jsstring
  | Alt regex regex
  | Seq regex regex
  | Opt regex

fun repeat_n :: "nat \<Rightarrow> regex \<Rightarrow> regex" where
  "repeat_n 0 r = Eps"
| "repeat_n (Suc n) r = Seq r (repeat_n n r)"

fun rmatch :: "regex \<Rightarrow> jsstring \<Rightarrow> jsstring list" where
  "rmatch Eps s = [s]"
| "rmatch (Chars cs) s = (case s of [] \<Rightarrow> [] | c # r \<Rightarrow> if c \<in> set cs then [r] else [])"
| "rmatch (Lit l) s = (if take (length l) s = l then [drop (length l) s] else [])"
| "rmatch (Alt a b) s = rmatch a s @ rmatch b s"
| "rmatch (Seq a b) s = concat (map (rmatch b) (rmatch a s))"
| "rmatch (Opt a) s = rmatch a s @ [s]"

definition test :: "regex \<Rightarrow> jsstring \<Rightarrow> bool" where
  "test r s = ([] \<in> set (rmatch r s))"

section \<open>Phone utilities\<close>

text \<open>\<open>/^(\+234|234|0)?[789][01]\d{8}$/\<close>\<close>

definition phoneRegex :: regex where
  "phoneRegex =
     Seq (Opt (Alt (Lit (js ''+234'')) (Alt (Lit (js ''234'')) (Lit (js ''0'')))))
       (Seq (Chars (js ''789'')) (Seq (Chars (js ''01''))
         (repeat_n 8 (Chars (js ''0123456789'')))))"

definition isValidPhone :: "jsstring \<Rightarrow> bool" where
  "isValidPhone phone = test phoneRegex (strip_whitespace phone)"

definition formatPhone :: "jsstring \<Rightarrow> jsstring" where
  "formatPhone phone =
    (let cleaned = strip_whitespace phone in
     if startsWith cleaned (js ''+234'') then substring cleaned 4
     else if startsWith cleaned (js ''234'') then substring cleaned 3
     else if startsWith cleaned (js ''0'') then substring cleaned 1
     else cleaned)"

subsection \<open>The phone pattern in the words of the specification\<close>

text \<open>
  A local number: one digit in {7,8,9}, then one digit in {0,1}, then exactly 8 more
  digits. The pattern of the specification: an optional prefix that is \<open>+234\<close>, \<open>234\<close> or
  \<open>0\<close>, followed by a local number and nothing else.
\<close>

definition is_digit :: "code_unit \<Rightarrow> bool" where
  "is_digit c = (c \<in> set (js ''0123456789''))"

fun local_number :: "jsstring \<Rightarrow> bool" where
  "local_number (d1 # d2 # rest) =
     (d1 \<in> set (js ''789'') \<and> d2 \<in> set (js ''01'') \<and> length rest = 8 \<and> list_all is_digit rest)"
| "local_number _ = False"

definition nigerian_phone_pattern :: "jsstring \<Rightarrow> bool" where
  "nigerian_phone_pattern s =
     list_ex (\<lambda>pre. prefix pre s \<and> local_number (drop (length pre) s))
       [js ''+234'', js ''234'', js ''0'', []]"

section \<open>Values, objects and errors\<close>

text \<open>
  A JavaScript number: a finite value, held exactly (every finite double is a rational, and
  \<open>-0\<close> is \<open>0\<close> in every comparison the source makes), \<open>NaN\<close>, or an infinity.
\<close>

datatype number = Num rat | NaN | PosInfinity | NegInfinity

text \<open>\<open>a < b\<close> on numbers: false whenever an operand is \<open>NaN\<close>.\<close>

fun number_less :: "number \<Rightarrow> number \<Rightarrow> bool" where
  "number_less NaN _ = False"
| "number_less _ NaN = False"
| "number_less (Num a) (Num b) = (a < b)"
| "number_less (Num a) PosInfinity = True"
| "number_less (Num a) NegInfinity = False"
| "number_less PosInfinity _ = False"
| "number_less NegInfinity NegInfinity = False"
| "number_less NegInfinity _ = True"

text \<open>
  The values the parameters and request bodies hold. A parameter that the caller leaves
  out is \<open>undefined\<close>: the fields of the parameter records are options, \<open>None\<close> for a
  missing field.
\<close>

datatype jsvalue = JUndefined | JString jsstring | JNumber number

fun of_string :: "jsstring option \<Rightarrow> jsvalue" where
  "of_string None = JUndefined"
| "of_string (Some s) = JString s"

fun of_number :: "number option \<Rightarrow> jsvalue" where
  "of_number None = JUndefined"
| "of_number (Some n) = JNumber n"

text \<open>
  Truthiness, as \<open>!v\<close>, \<open>v && e\<close> and \<open>v || e\<close> test it: \<open>undefined\<close>, the empty string,
  zero and \<open>NaN\<close> are falsy.
\<close>

fun truthy :: "jsvalue \<Rightarrow> bool" where
  "truthy JUndefined = False"
| "truthy (JString s) = (s \<noteq> [])"
| "truthy (JNumber (Num r)) = (r \<noteq> 0)"
| "truthy (JNumber NaN) = False"
| "truthy (JNumber PosInfinity) = True"
| "truthy (JNumber NegInfinity) = True"

text \<open>\<open>xs.includes(v)\<close> for an array of strings.\<close>

definition array_includes :: "jsstring list \<Rightarrow> jsvalue \<Rightarrow> bool" where
  "array_includes xs v = (v \<in> set (map JString xs))"

text \<open>
  An object literal is the list of its properties in the order they are written. The
  spread \<open>...(c && {k: v})\<close> adds the property when \<open>c\<close> is truthy and nothing otherwise.
\<close>

type_synonym jsobject = "(string \<times> jsvalue) list"

definition spread_when :: "bool \<Rightarrow> jsobject \<Rightarrow> jsobject" where
  "spread_when c obj = (if c then obj else [])"

datatype error = Error jsstring

section \<open>Request transport\<close>

text \<open>
  \<open>makeRequest\<close> is the only place the client reaches the network. It resolves the
  endpoint against the base URL, attaches the headers, writes the JSON text of the body
  when there is one, and settles with the status code and the decoded body, or rejects
  (network failure, timeout, undecodable body). How a request is answered is a parameter
  here: a function from the request to a rejection or a response. The list of the requests
  handed to \<open>makeRequest\<close> so far is threaded through every operation.
\<close>

record request =
  req_endpoint :: string
  req_method :: string
  req_body :: "jsobject option"

record 'r APIResponse =
  statusCode :: nat
  data :: 'r

type_synonym 'r transport = "request \<Rightarrow> error + 'r APIResponse"

definition makeRequest ::
  "'r transport \<Rightarrow> string \<Rightarrow> string \<Rightarrow> jsobject option \<Rightarrow> request list
     \<Rightarrow> (error + 'r APIResponse) \<times> request list" where
  "makeRequest net endpoint method payload tr =
     (let req = \<lparr>req_endpoint = endpoint, req_method = method, req_body = payload\<rparr>
      in (net req, tr @ [req]))"

section \<open>Domain operations\<close>

text \<open>
  An operation returns what its promise settles to, \<open>Inl\<close> for a rejection, and the
  requests made. A \<open>throw\<close> before the first \<open>await\<close> leaves the list as it was.
\<close>

definition network_operators :: "jsstring list" where
  "network_operators = [js ''mtn'', js ''airtel'', js ''glo'', js ''9mobile'']"

text \<open>The catalog: a plan, and the envelope \<open>GET /data/plans\<close> answers with.\<close>

record DataPlan =
  network_operator :: jsstring
  plan_summary :: jsstring
  package_code :: jsstring
  plan_id :: number
  validity :: jsstring
  regular_price :: number
  agent_price :: number
  dealer_price :: number
  currency :: jsstring

record DataPlansResponse =
  success :: bool
  status :: jsstring
  data :: "DataPlan list option"

definition getDataPlans ::
  "DataPlansResponse transport \<Rightarrow> request list \<Rightarrow> (error + DataPlansResponse) \<times> request list" where
  "getDataPlans net tr =
     (case makeRequest net ''/data/plans'' ''GET'' None tr of
        (Inl e, tr') \<Rightarrow> (Inl e, tr')
      | (Inr response, tr') \<Rightarrow> (Inr (APIResponse.data response), tr'))"

definition getDataPlansByOperator ::
  "DataPlansResponse transport \<Rightarrow> jsstring \<Rightarrow> request list
     \<Rightarrow> (error + DataPlan list) \<times> request list" where
  "getDataPlansByOperator net networkOperator tr =
     (if \<not> array_includes network_operators (JString networkOperator)
      then (Inl (Error (js
        ''Invalid network operator. Must be one of: mtn, airtel, glo, 9mobile'')), tr)
      else
        (case getDataPlans net tr of
           (Inl e, tr') \<Rightarrow> (Inl e, tr')
         | (Inr response, tr') \<Rightarrow>
             (case (success response, DataPlansResponse.data response) of
                (True, Some plans) \<Rightarrow>
                  (Inr (filter (\<lambda>plan. network_operator plan = networkOperator) plans), tr')
              | _ \<Rightarrow> (Inr [], tr'))))"

definition findDataPlan ::
  "DataPlansResponse transport \<Rightarrow> jsstring \<Rightarrow> request list
     \<Rightarrow> (error + DataPlan option) \<times> request list" where
  "findDataPlan net packageCode tr =
     (case getDataPlans net tr of
        (Inl e, tr') \<Rightarrow> (Inl e, tr')
      | (Inr response, tr') \<Rightarrow>
          (case (success response, DataPlansResponse.data response) of
             (True, Some plans) \<Rightarrow>
               (Inr (find (\<lambda>plan. package_code plan = packageCode) plans), tr')
           | _ \<Rightarrow> (Inr None, tr')))"

text \<open>
  \<open>plan[priceKey]\<close> for a key built as \<open>`${priceType}_price`\<close>: a plan has three properties
  whose names end in \<open>_price\<close>; any other such key reads \<open>undefined\<close>.
\<close>

definition plan_property :: "DataPlan \<Rightarrow> jsstring \<Rightarrow> jsvalue" where
  "plan_property plan key =
     (if key = js ''regular_price'' then JNumber (regular_price plan)
      else if key = js ''agent_price'' then JNumber (agent_price plan)
      else if key = js ''dealer_price'' then JNumber (dealer_price plan)
      else JUndefined)"

definition getDataPlanPrice ::
  "DataPlansResponse transport \<Rightarrow> jsstring \<Rightarrow> jsstring option \<Rightarrow> request list
     \<Rightarrow> (error + jsvalue option) \<times> request list" where
  "getDataPlanPrice net packageCode priceType tr =
     (let priceType = (case priceType of None \<Rightarrow> js ''regular'' | Some t \<Rightarrow> t) in
      case findDataPlan net packageCode tr of
        (Inl e, tr') \<Rightarrow> (Inl e, tr')
      | (Inr None, tr') \<Rightarrow> (Inr None, tr')
      | (Inr (Some plan), tr') \<Rightarrow>
          (let priceKey = priceType @ js ''_price'';
               price = plan_property plan priceKey
           in (Inr (if truthy price then Some price else None), tr')))"

text \<open>The parameters of the purchase operations.\<close>

record AirtimePurchaseParams =
  networkOperator :: "jsstring option"
  phone :: "jsstring option"
  amount :: "number option"
  maxAmount :: "jsstring option"
  callbackUrl :: "jsstring option"
  customerReference :: "jsstring option"

record DataPurchaseParams =
  phone :: "jsstring option"
  packageCode :: "jsstring option"
  planId :: "number option"
  maxAmount :: "jsstring option"
  callbackUrl :: "jsstring option"
  customerReference :: "jsstring option"

record DataWalletVendParams =
  phone :: "jsstring option"
  packageCode :: "jsstring option"
  planId :: "number option"
  processType :: "jsstring option"
  callbackUrl :: "jsstring option"
  customerReference :: "jsstring option"

definition purchaseAirtime ::
  "'r transport \<Rightarrow> AirtimePurchaseParams \<Rightarrow> request list \<Rightarrow> (error + 'r) \<times> request list" where
  "purchaseAirtime net params tr =
    (let networkOperator = of_string (AirtimePurchaseParams.networkOperator params);
         phone = of_string (AirtimePurchaseParams.phone params);
         amount = AirtimePurchaseParams.amount params;
         maxAmount = of_string (AirtimePurchaseParams.maxAmount params);
         callbackUrl = of_string (AirtimePurchaseParams.callbackUrl params);
         customerReference = of_string (AirtimePurchaseParams.customerReference params)
     in
     if \<not> truthy networkOperator \<or> \<not> truthy phone \<or> \<not> truthy (of_number amount)
          \<or> \<not> truthy maxAmount
     then (Inl (Error (js ''networkOperator, phone, amount, and maxAmount are required'')), tr)
     else if \<not> array_includes network_operators networkOperator
     then (Inl (Error (js
        ''Invalid network operator. Must be one of: mtn, airtel, glo, 9mobile'')), tr)
     else if (case amount of None \<Rightarrow> False
              | Some a \<Rightarrow> number_less a (Num 50) \<or> number_less (Num 50000) a)
     then (Inl (Error (js ''Amount must be between 50 and 50000 NGN'')), tr)
     else
       let requestData =
             [(''network_operator'', networkOperator),
              (''phone'', phone),
              (''amount'', of_number amount),
              (''max_amount'', maxAmount)]
             @ spread_when (truthy callbackUrl) [(''callback_url'', callbackUrl)]
             @ spread_when (truthy customerReference) [(''customer_reference'', customerReference)]
       in (case makeRequest net ''/airtime'' ''POST'' (Some requestData) tr of
             (Inl e, tr') \<Rightarrow> (Inl e, tr')
           | (Inr response, tr') \<Rightarrow> (Inr (APIResponse.data response), tr')))"

definition purchaseData ::
  "'r transport \<Rightarrow> DataPurchaseParams \<Rightarrow> request list \<Rightarrow> (error + 'r) \<times> request list" where
  "purchaseData net params tr =
    (let phone = of_string (DataPurchaseParams.phone params);
         packageCode = of_string (DataPurchaseParams.packageCode params);
         planId = of_number (DataPurchaseParams.planId params);
         maxAmount = of_string (DataPurchaseParams.maxAmount params);
         callbackUrl = of_string (DataPurchaseParams.callbackUrl params);
         customerReference = of_string (DataPurchaseParams.customerReference params)
     in
     if \<not> truthy phone
     then (Inl (Error (js ''phone is required'')), tr)
     else if \<not> truthy packageCode \<and> \<not> truthy planId
     then (Inl (Error (js ''Either packageCode or planId is required'')), tr)
     else
       let requestData =
             [(''phone'', phone)]
             @ spread_when (truthy packageCode) [(''package_code'', packageCode)]
             @ spread_when (truthy planId \<and> \<not> truthy packageCode) [(''plan_id'', planId)]
             @ spread_when (truthy maxAmount) [(''max_amount'', maxAmount)]
             @ spread_when (truthy callbackUrl) [(''callback_url'', callbackUrl)]
             @ spread_when (truthy customerReference) [(''customer_reference'', customerReference)]
       in (case makeRequest net ''/data'' ''POST'' (Some requestData) tr of
             (Inl e, tr') \<Rightarrow> (Inl e, tr')
           | (Inr response, tr') \<Rightarrow> (Inr (APIResponse.data response), tr')))"

definition vendDataFromWallet ::
  "'r transport \<Rightarrow> DataWalletVendParams \<Rightarrow> request list \<Rightarrow> (error + 'r) \<times> request list" where
  \<open>vendDataFromWallet net params tr =
    (let phone = of_string (DataWalletVendParams.phone params);
         packageCode = of_string (DataWalletVendParams.packageCode params);
         planId = of_number (DataWalletVendParams.planId params);
         processType = of_string (DataWalletVendParams.processType params);
         callbackUrl = of_string (DataWalletVendParams.callbackUrl params);
         customerReference = of_string (DataWalletVendParams.customerReference params)
     in
     if \<not> truthy phone
     then (Inl (Error (js ''phone is required'')), tr)
     else if \<not> truthy packageCode \<and> \<not> truthy planId
     then (Inl (Error (js ''Either packageCode or planId is required'')), tr)
     else if truthy processType \<and> \<not> array_includes [js ''queue'', js ''instant''] processType
     then (Inl (Error (js ''processType must be either "queue" or "instant"'')), tr)
     else
       let requestData =
             [(''phone'', phone)]
             @ spread_when (truthy packageCode) [(''package_code'', packageCode)]
             @ spread_when (truthy planId \<and> \<not> truthy packageCode) [(''plan_id'', planId)]
             @ spread_when (truthy processType) [(''process_type'', processType)]
             @ spread_when (truthy callbackUrl) [(''callback_url'', callbackUrl)]
             @ spread_when (truthy customerReference) [(''customer_reference'', customerReference)]
       in (case makeRequest net ''/data/wallet'' ''POST'' (Some requestData) tr of
             (Inl e, tr') \<Rightarrow> (Inl e, tr')
           | (Inr response, tr') \<Rightarrow> (Inr (APIResponse.data response), tr')))\<close>


text \<open>A remote side for the examples: it answers every request with status 200.\<close>

definition accepting_server :: "unit transport" where
  "accepting_server req = Inr \<lparr>statusCode = 200, data = ()\<rparr>"


text \<open>Two catalogs for the examples, and a remote side that serves a given catalog.\<close>

definition example_plan_mtn :: DataPlan where
  "example_plan_mtn =
     \<lparr>network_operator = js ''mtn'', plan_summary = js ''1GB'', package_code = js ''MTN_1GB'',
      plan_id = Num 1, validity = js ''30 days'', regular_price = Num 300,
      agent_price = Num 290, dealer_price = Num 0, currency = js ''NGN''\<rparr>"

definition example_plan_glo :: DataPlan where
  "example_plan_glo =
     \<lparr>network_operator = js ''glo'', plan_summary = js ''2GB'', package_code = js ''GLO_2GB'',
      plan_id = Num 2, validity = js ''30 days'', regular_price = Num 500,
      agent_price = Num 480, dealer_price = Num 470, currency = js ''NGN''\<rparr>"

definition example_catalog :: DataPlansResponse where
  "example_catalog =
     \<lparr>success = True, status = js ''success'',
      data = Some [example_plan_mtn, example_plan_glo]\<rparr>"

definition failed_catalog :: DataPlansResponse where
  "failed_catalog =
     \<lparr>success = False, status = js ''error'', data = Some [example_plan_mtn]\<rparr>"

definition catalog_server :: "DataPlansResponse \<Rightarrow> DataPlansResponse transport" where
  "catalog_server envelope req = Inr \<lparr>statusCode = 200, data = envelope\<rparr>"

section \<open>What the matcher computes\<close>

lemma repeat_n_8:
  "repeat_n 8 r = Seq r (Seq r (Seq r (Seq r (Seq r (Seq r (Seq r (Seq r Eps)))))))"
  by (simp add: eval_nat_numeral)

lemma set_rmatch_Chars: "set (rmatch (Chars cs) s) = {r. \<exists>c. s = c # r \<and> c \<in> set cs}"
  by (cases s) auto

lemma set_rmatch_Lit: "set (rmatch (Lit l) s) = {r. s = l @ r}"
proof -
  have "take (length l) s = l \<longleftrightarrow> (\<exists>r. s = l @ r)"
    by (metis append_eq_conv_conj)
  then show ?thesis by (auto simp: append_eq_conv_conj)
qed

lemma set_rmatch_Seq: "set (rmatch (Seq a b) s) = (\<Union>t \<in> set (rmatch a s). set (rmatch b t))"
  by simp

lemma set_rmatch_repeat_Chars:
  "set (rmatch (repeat_n n (Chars cs)) s) =
     {r. \<exists>p. s = p @ r \<and> length p = n \<and> set p \<subseteq> set cs}"
proof (induction n arbitrary: s)
  case 0
  then show ?case by auto
next
  case (Suc n)
  show ?case
  proof (rule set_eqI)
    fix r
    have "r \<in> set (rmatch (repeat_n (Suc n) (Chars cs)) s) \<longleftrightarrow>
          (\<exists>c t. s = c # t \<and> c \<in> set cs \<and>
             (\<exists>p. t = p @ r \<and> length p = n \<and> set p \<subseteq> set cs))"
      using Suc.IH by (auto simp: set_rmatch_Chars)
    also have "\<dots> \<longleftrightarrow> (\<exists>p. s = p @ r \<and> length p = Suc n \<and> set p \<subseteq> set cs)"
      (is "?A \<longleftrightarrow> ?B")
    proof
      assume ?A
      then obtain c p where "s = (c # p) @ r" "c \<in> set cs" "length p = n" "set p \<subseteq> set cs"
        by auto
      then show ?B by (intro exI[of _ "c # p"]) simp
    next
      assume ?B
      then obtain p where p: "s = p @ r" "length p = Suc n" "set p \<subseteq> set cs" by auto
      then obtain c q where "p = c # q" by (cases p) auto
      with p show ?A by auto
    qed
    finally show "r \<in> set (rmatch (repeat_n (Suc n) (Chars cs)) s) \<longleftrightarrow>
       r \<in> {r. \<exists>p. s = p @ r \<and> length p = Suc n \<and> set p \<subseteq> set cs}" by simp
  qed
qed

lemma local_number_iff:
  "local_number s \<longleftrightarrow> (\<exists>d1 d2 rest. s = d1 # d2 # rest \<and> d1 \<in> set (js ''789'') \<and>
      d2 \<in> set (js ''01'') \<and> length rest = 8 \<and> set rest \<subseteq> set (js ''0123456789''))"
  by (cases s rule: local_number.cases) (auto simp: list_all_iff is_digit_def)

lemma test_local:
  "test (Seq (Chars (js ''789'')) (Seq (Chars (js ''01''))
      (repeat_n 8 (Chars (js ''0123456789''))))) s \<longleftrightarrow> local_number s"
  unfolding test_def local_number_iff set_rmatch_Seq set_rmatch_Chars set_rmatch_repeat_Chars
  by auto

lemma set_rmatch_prefix:
  "set (rmatch (Opt (Alt (Lit a) (Alt (Lit b) (Lit c)))) s) =
     {r. s = a @ r \<or> s = b @ r \<or> s = c @ r \<or> s = r}"
  by (auto simp: set_rmatch_Lit simp del: rmatch.simps(3))

lemma test_phoneRegex_iff: "test phoneRegex s \<longleftrightarrow> nigerian_phone_pattern s"
proof -
  let ?pre = "Opt (Alt (Lit (js ''+234'')) (Alt (Lit (js ''234'')) (Lit (js ''0''))))"
  let ?loc = "Seq (Chars (js ''789'')) (Seq (Chars (js ''01''))
                (repeat_n 8 (Chars (js ''0123456789''))))"
  have "test phoneRegex s \<longleftrightarrow> (\<exists>t \<in> set (rmatch ?pre s). test ?loc t)"
    unfolding test_def phoneRegex_def set_rmatch_Seq[of _ ?loc] by blast
  also have "\<dots> \<longleftrightarrow> (\<exists>t. (s = js ''+234'' @ t \<or> s = js ''234'' @ t \<or> s = js ''0'' @ t \<or> s = t)
                \<and> local_number t)"
    unfolding set_rmatch_prefix test_local by blast
  also have "\<dots> \<longleftrightarrow> nigerian_phone_pattern s"
    unfolding nigerian_phone_pattern_def by (auto simp: prefix_def)
  finally show ?thesis .
qed


section \<open>Facts about the phone utilities\<close>

lemma digit_not_whitespace: "is_digit c \<Longrightarrow> \<not> is_whitespace c"
  by (auto simp: is_digit_def is_whitespace_def js_def)

lemma local_number_digits: "local_number s \<Longrightarrow> length s = 10 \<and> list_all is_digit s"
  by (cases s rule: local_number.cases) (auto simp: is_digit_def js_def)

lemma strip_local_number: "local_number s \<Longrightarrow> strip_whitespace s = s"
proof -
  assume "local_number s"
  then have "\<forall>c \<in> set s. \<not> is_whitespace c"
    using local_number_digits[of s] digit_not_whitespace by (auto simp: list_all_iff)
  then show ?thesis unfolding strip_whitespace_def by (simp add: filter_id_conv)
qed

lemma formatPhone_prefixed:
  assumes "strip_whitespace ph = pre @ t" "local_number t"
    and "pre = js ''+234'' \<or> pre = js ''234'' \<or> pre = js ''0'' \<or> pre = []"
  shows "formatPhone ph = t"
proof -
  from assms(2) obtain d1 d2 rest where t: "t = d1 # d2 # rest" "d1 \<in> set (js ''789'')"
    unfolding local_number_iff by blast
  from assms(3) show ?thesis
    using assms(1) t
    by (auto simp: formatPhone_def startsWith_def substring_def js_def)
qed

lemma formatPhone_local: "local_number s \<Longrightarrow> formatPhone s = s"
  using formatPhone_prefixed[of s "[]" s] by (simp add: strip_local_number)

lemma pattern_cases:
  "nigerian_phone_pattern s \<longleftrightarrow> (\<exists>pre t. s = pre @ t \<and> local_number t \<and>
     (pre = js ''+234'' \<or> pre = js ''234'' \<or> pre = js ''0'' \<or> pre = []))"
  unfolding nigerian_phone_pattern_def by (auto simp: prefix_def) blast+

lemma formatPhone_valid:
  assumes "isValidPhone ph"
  shows "local_number (formatPhone ph)"
proof -
  from assms have "nigerian_phone_pattern (strip_whitespace ph)"
    by (simp add: isValidPhone_def test_phoneRegex_iff)
  then obtain pre t where "strip_whitespace ph = pre @ t" "local_number t"
     "pre = js ''+234'' \<or> pre = js ''234'' \<or> pre = js ''0'' \<or> pre = []"
    unfolding pattern_cases by blast
  then show ?thesis using formatPhone_prefixed by metis
qed

lemma isValidPhone_local: "local_number s \<Longrightarrow> isValidPhone s"
  by (simp add: isValidPhone_def test_phoneRegex_iff strip_local_number nigerian_phone_pattern_def)


lemma local_number_shape:
  "local_number s \<longleftrightarrow> length s = 10 \<and> list_all is_digit s \<and>
     s ! 0 \<in> set (js ''789'') \<and> s ! 1 \<in> set (js ''01'')"
  by (cases s rule: local_number.cases) (auto simp: is_digit_def js_def)



lemma isValidPhone_examples:
  "isValidPhone (js ''08012345678'') \<and> \<not> isValidPhone (js ''12345'')"
proof -
  have "strip_whitespace (js ''08012345678'') = js ''08012345678''"
    and "strip_whitespace (js ''12345'') = js ''12345''"
    by (simp_all add: js_def strip_whitespace_def is_whitespace_def)
  moreover have "test phoneRegex (js ''08012345678'')"
    and "\<not> test phoneRegex (js ''12345'')"
    by (simp_all add: test_def phoneRegex_def repeat_n_8 js_def)
  ultimately show ?thesis by (simp add: isValidPhone_def)
qed

section \<open>The claims about the phone utilities\<close>

text \<open>
  C7. For every string \<open>ph\<close>, \<open>isValidPhone ph\<close> is true if and only if the string
  left after removing all whitespace from \<open>ph\<close> is, from its first to its last code
  unit, an optional prefix \<open>+234\<close>, \<open>234\<close> or \<open>0\<close>, then one digit in {7,8,9}, then one
  digit in {0,1}, then exactly 8 more digits. The function is a pure function of its
  argument. The first conjunct states this with the pattern of the specification, the
  second spells the pattern out.
\<close>

theorem isValidPhone_iff_pattern:
  "isValidPhone ph = nigerian_phone_pattern (strip_whitespace ph) \<and>
   isValidPhone ph =
     (\<exists>pre d1 d2 rest. strip_whitespace ph = pre @ d1 # d2 # rest \<and>
        (pre = js ''+234'' \<or> pre = js ''234'' \<or> pre = js ''0'' \<or> pre = []) \<and>
        d1 \<in> set (js ''789'') \<and> d2 \<in> set (js ''01'') \<and>
        length rest = 8 \<and> list_all is_digit rest)"
proof -
  have a: "isValidPhone ph = nigerian_phone_pattern (strip_whitespace ph)"
    by (simp add: isValidPhone_def test_phoneRegex_iff)
  have b: "nigerian_phone_pattern (strip_whitespace ph) =
     (\<exists>pre d1 d2 rest. strip_whitespace ph = pre @ d1 # d2 # rest \<and>
        (pre = js ''+234'' \<or> pre = js ''234'' \<or> pre = js ''0'' \<or> pre = []) \<and>
        d1 \<in> set (js ''789'') \<and> d2 \<in> set (js ''01'') \<and>
        length rest = 8 \<and> list_all is_digit rest)"
    unfolding pattern_cases local_number_iff list_all_iff is_digit_def by blast
  from a b show ?thesis by simp
qed

text \<open>
  C8. For every string \<open>ph\<close>, \<open>formatPhone\<close> removes all whitespace and then exactly one
  leading prefix, the first that matches of \<open>+234\<close>, \<open>234\<close> and \<open>0\<close>; when none matches,
  the whitespace-free string is returned as it is. It is total and checks nothing about
  the remaining code units. On a local number (ten digits, the first in {7,8,9}, the
  second in {0,1}) it is the identity, hence idempotent.
\<close>

theorem formatPhone_strips_one_prefix:
  "(\<forall>r. strip_whitespace ph = js ''+234'' @ r \<longrightarrow> formatPhone ph = r) \<and>
   (\<forall>r. \<not> prefix (js ''+234'') (strip_whitespace ph) \<and>
        strip_whitespace ph = js ''234'' @ r \<longrightarrow> formatPhone ph = r) \<and>
   (\<forall>r. \<not> prefix (js ''+234'') (strip_whitespace ph) \<and>
        \<not> prefix (js ''234'') (strip_whitespace ph) \<and>
        strip_whitespace ph = js ''0'' @ r \<longrightarrow> formatPhone ph = r) \<and>
   (\<not> prefix (js ''+234'') (strip_whitespace ph) \<and>
    \<not> prefix (js ''234'') (strip_whitespace ph) \<and>
    \<not> prefix (js ''0'') (strip_whitespace ph) \<longrightarrow>
      formatPhone ph = strip_whitespace ph) \<and>
   (local_number ph \<longrightarrow>
      formatPhone ph = ph \<and> formatPhone (formatPhone ph) = formatPhone ph)"
proof -
  let ?c = "strip_whitespace ph"
  have sw: "startsWith s p = prefix p s" for s p
    unfolding startsWith_def prefix_def by (metis append_eq_conv_conj)
  have len: "length (js ''+234'') = 4" "length (js ''234'') = 3" "length (js ''0'') = 1"
    by (simp_all add: js_def)
  have f: "formatPhone ph =
     (if prefix (js ''+234'') ?c then drop 4 ?c
      else if prefix (js ''234'') ?c then drop 3 ?c
      else if prefix (js ''0'') ?c then drop 1 ?c else ?c)"
    by (simp add: formatPhone_def sw substring_def Let_def)
  have p1: "formatPhone ph = r" if b: "?c = js ''+234'' @ r" for r
  proof -
    have pre: "prefix (js ''+234'') ?c" unfolding b by simp
    then have "formatPhone ph = drop 4 ?c" by (simp only: f if_True)
    also have "\<dots> = r" unfolding b using len by simp
    finally show ?thesis .
  qed
  have p2: "formatPhone ph = r"
    if "\<not> prefix (js ''+234'') ?c \<and> ?c = js ''234'' @ r" for r
  proof -
    from that have a: "\<not> prefix (js ''+234'') ?c" and b: "?c = js ''234'' @ r" by blast+
    have pre: "prefix (js ''234'') ?c" unfolding b by simp
    from a pre have "formatPhone ph = drop 3 ?c" by (simp only: f if_True if_False)
    also have "\<dots> = r" unfolding b using len by simp
    finally show ?thesis .
  qed
  have p3: "formatPhone ph = r"
    if "\<not> prefix (js ''+234'') ?c \<and> \<not> prefix (js ''234'') ?c \<and> ?c = js ''0'' @ r" for r
  proof -
    from that have a: "\<not> prefix (js ''+234'') ?c" "\<not> prefix (js ''234'') ?c"
      and b: "?c = js ''0'' @ r" by blast+
    have pre: "prefix (js ''0'') ?c" unfolding b by simp
    from a pre have "formatPhone ph = drop 1 ?c" by (simp only: f if_True if_False)
    also have "\<dots> = r" unfolding b using len by simp
    finally show ?thesis .
  qed
  have p4: "formatPhone ph = ?c"
    if "\<not> prefix (js ''+234'') ?c \<and> \<not> prefix (js ''234'') ?c \<and> \<not> prefix (js ''0'') ?c"
    using that by (simp only: f if_False)
  have p5: "formatPhone ph = ph \<and> formatPhone (formatPhone ph) = formatPhone ph"
    if "local_number ph"
    using that by (simp add: formatPhone_local)
  from p1 p2 p3 p4 p5 show ?thesis by blast
qed

theorem formatPhone_strips_one_prefix_witness:
  "formatPhone (js ''+2348012345678'') = js ''8012345678'' \<and>
   formatPhone (js ''2348012345678'') = js ''8012345678'' \<and>
   formatPhone (js ''0801 234 5678'') = js ''8012345678'' \<and>
   formatPhone (js ''abc'') = js ''abc'' \<and>
   formatPhone (js ''8012345678'') = js ''8012345678'' \<and>
   formatPhone (formatPhone (js ''8012345678'')) = formatPhone (js ''8012345678'')"
proof -
  have s1: "strip_whitespace (js ''+2348012345678'') = js ''+234'' @ js ''8012345678''"
   and s2: "strip_whitespace (js ''2348012345678'') = js ''234'' @ js ''8012345678''"
   and s3: "strip_whitespace (js ''0801 234 5678'') = js ''0'' @ js ''8012345678''"
   and s4: "strip_whitespace (js ''abc'') = js ''abc''"
   and l5: "local_number (js ''8012345678'')"
    by (simp_all add: js_def strip_whitespace_def is_whitespace_def is_digit_def)
  have n2: "\<not> prefix (js ''+234'') (js ''234'' @ js ''8012345678'')"
   and n3: "\<not> prefix (js ''+234'') (js ''0'' @ js ''8012345678'')"
           "\<not> prefix (js ''234'') (js ''0'' @ js ''8012345678'')"
   and n4: "\<not> prefix (js ''+234'') (js ''abc'')" "\<not> prefix (js ''234'') (js ''abc'')"
           "\<not> prefix (js ''0'') (js ''abc'')"
    by (simp_all add: js_def)
  show ?thesis
    using formatPhone_strips_one_prefix[of "js ''+2348012345678''"]
      formatPhone_strips_one_prefix[of "js ''2348012345678''"]
      formatPhone_strips_one_prefix[of "js ''0801 234 5678''"]
      formatPhone_strips_one_prefix[of "js ''abc''"]
      formatPhone_strips_one_prefix[of "js ''8012345678''"]
      s1 s2 s3 s4 l5 n2 n3 n4
    by simp
qed

text \<open>
  C9. For every string \<open>ph\<close> that \<open>isValidPhone\<close> accepts, \<open>formatPhone ph\<close> is a
  string of exactly 10 digits whose first digit is in {7,8,9} and whose second digit is in
  {0,1}; it is accepted by \<open>isValidPhone\<close> again, and formatting it a second time changes
  nothing.
\<close>

theorem valid_phone_formats_to_local:
  assumes "isValidPhone ph"
  shows "length (formatPhone ph) = 10 \<and> list_all is_digit (formatPhone ph) \<and>
         formatPhone ph ! 0 \<in> set (js ''789'') \<and> formatPhone ph ! 1 \<in> set (js ''01'') \<and>
         isValidPhone (formatPhone ph) \<and>
         formatPhone (formatPhone ph) = formatPhone ph"
proof -
  from assms have l: "local_number (formatPhone ph)" by (rule formatPhone_valid)
  then show ?thesis
    using isValidPhone_local[OF l] formatPhone_local[OF l] by (simp add: local_number_shape)
qed

theorem valid_phone_formats_to_local_witness:
  "isValidPhone (js ''+234 801 234 5678'') \<and>
   length (formatPhone (js ''+234 801 234 5678'')) = 10 \<and>
   list_all is_digit (formatPhone (js ''+234 801 234 5678'')) \<and>
   formatPhone (js ''+234 801 234 5678'') ! 0 \<in> set (js ''789'') \<and>
   formatPhone (js ''+234 801 234 5678'') ! 1 \<in> set (js ''01'') \<and>
   isValidPhone (formatPhone (js ''+234 801 234 5678'')) \<and>
   formatPhone (formatPhone (js ''+234 801 234 5678'')) = formatPhone (js ''+234 801 234 5678'')"
proof -
  have "strip_whitespace (js ''+234 801 234 5678'') = js ''+2348012345678''"
    by (simp add: js_def strip_whitespace_def is_whitespace_def)
  moreover have "test phoneRegex (js ''+2348012345678'')"
    by (simp add: test_def phoneRegex_def repeat_n_8 js_def)
  ultimately have v: "isValidPhone (js ''+234 801 234 5678'')"
    by (simp add: isValidPhone_def)
  show ?thesis using v valid_phone_formats_to_local[OF v] by simp
qed

section \<open>Facts about the purchase operations\<close>

lemma purchaseAirtime_cases:
  "purchaseAirtime net p tr =
    (if \<not> truthy (of_string (AirtimePurchaseParams.networkOperator p))
        \<or> \<not> truthy (of_string (AirtimePurchaseParams.phone p))
        \<or> \<not> truthy (of_number (AirtimePurchaseParams.amount p))
        \<or> \<not> truthy (of_string (AirtimePurchaseParams.maxAmount p))
     then (Inl (Error (js ''networkOperator, phone, amount, and maxAmount are required'')), tr)
     else if \<not> array_includes network_operators (of_string (AirtimePurchaseParams.networkOperator p))
     then (Inl (Error (js
        ''Invalid network operator. Must be one of: mtn, airtel, glo, 9mobile'')), tr)
     else if (case AirtimePurchaseParams.amount p of None \<Rightarrow> False
              | Some a \<Rightarrow> number_less a (Num 50) \<or> number_less (Num 50000) a)
     then (Inl (Error (js ''Amount must be between 50 and 50000 NGN'')), tr)
     else (case net \<lparr>req_endpoint = ''/airtime'', req_method = ''POST'', req_body = Some
             ([(''network_operator'', of_string (AirtimePurchaseParams.networkOperator p)),
              (''phone'', of_string (AirtimePurchaseParams.phone p)),
              (''amount'', of_number (AirtimePurchaseParams.amount p)),
              (''max_amount'', of_string (AirtimePurchaseParams.maxAmount p))]
             @ spread_when (truthy (of_string (AirtimePurchaseParams.callbackUrl p)))
                 [(''callback_url'', of_string (AirtimePurchaseParams.callbackUrl p))]
             @ spread_when (truthy (of_string (AirtimePurchaseParams.customerReference p)))
                 [(''customer_reference'', of_string (AirtimePurchaseParams.customerReference p))])\<rparr> of
            Inl e \<Rightarrow> Inl e | Inr response \<Rightarrow> Inr (APIResponse.data response),
          tr @ [\<lparr>req_endpoint = ''/airtime'', req_method = ''POST'', req_body = Some
             ([(''network_operator'', of_string (AirtimePurchaseParams.networkOperator p)),
              (''phone'', of_string (AirtimePurchaseParams.phone p)),
              (''amount'', of_number (AirtimePurchaseParams.amount p)),
              (''max_amount'', of_string (AirtimePurchaseParams.maxAmount p))]
             @ spread_when (truthy (of_string (AirtimePurchaseParams.callbackUrl p)))
                 [(''callback_url'', of_string (AirtimePurchaseParams.callbackUrl p))]
             @ spread_when (truthy (of_string (AirtimePurchaseParams.customerReference p)))
                 [(''customer_reference'', of_string (AirtimePurchaseParams.customerReference p))])\<rparr>]))"
  unfolding purchaseAirtime_def makeRequest_def Let_def
  by (simp split: sum.splits)

lemma array_includes_iff: "array_includes xs (of_string v) \<longleftrightarrow> (\<exists>s \<in> set xs. v = Some s)"
  by (cases v) (auto simp: array_includes_def)

lemma truthy_JNumber: "truthy (JNumber n) \<longleftrightarrow> n \<noteq> Num 0 \<and> n \<noteq> NaN"
  by (cases n) auto

lemma purchaseData_no_phone:
  "\<not> truthy (of_string (DataPurchaseParams.phone p)) \<Longrightarrow>
     purchaseData net p tr = (Inl (Error (js ''phone is required'')), tr)"
  by (simp add: purchaseData_def)

lemma purchaseData_no_plan:
  "truthy (of_string (DataPurchaseParams.phone p)) \<Longrightarrow>
   \<not> truthy (of_string (DataPurchaseParams.packageCode p)) \<Longrightarrow>
   \<not> truthy (of_number (DataPurchaseParams.planId p)) \<Longrightarrow>
     purchaseData net p tr = (Inl (Error (js ''Either packageCode or planId is required'')), tr)"
  by (simp add: purchaseData_def)

lemma purchaseData_sends:
  assumes "truthy (of_string (DataPurchaseParams.phone p))"
    and "truthy (of_string (DataPurchaseParams.packageCode p))
         \<or> truthy (of_number (DataPurchaseParams.planId p))"
  shows "\<exists>b. purchaseData net p tr =
            (case net \<lparr>req_endpoint = ''/data'', req_method = ''POST'', req_body = Some b\<rparr> of
               Inl e \<Rightarrow> Inl e | Inr response \<Rightarrow> Inr (APIResponse.data response),
             tr @ [\<lparr>req_endpoint = ''/data'', req_method = ''POST'', req_body = Some b\<rparr>])
          \<and> map_of b ''package_code'' =
              (if truthy (of_string (DataPurchaseParams.packageCode p))
               then Some (of_string (DataPurchaseParams.packageCode p)) else None)
          \<and> map_of b ''plan_id'' =
              (if truthy (of_number (DataPurchaseParams.planId p))
                  \<and> \<not> truthy (of_string (DataPurchaseParams.packageCode p))
               then Some (of_number (DataPurchaseParams.planId p)) else None)
          \<and> distinct (map fst b)"
proof -
  let ?b = "[(''phone'', of_string (DataPurchaseParams.phone p))]
     @ spread_when (truthy (of_string (DataPurchaseParams.packageCode p)))
         [(''package_code'', of_string (DataPurchaseParams.packageCode p))]
     @ spread_when (truthy (of_number (DataPurchaseParams.planId p))
           \<and> \<not> truthy (of_string (DataPurchaseParams.packageCode p)))
         [(''plan_id'', of_number (DataPurchaseParams.planId p))]
     @ spread_when (truthy (of_string (DataPurchaseParams.maxAmount p)))
         [(''max_amount'', of_string (DataPurchaseParams.maxAmount p))]
     @ spread_when (truthy (of_string (DataPurchaseParams.callbackUrl p)))
         [(''callback_url'', of_string (DataPurchaseParams.callbackUrl p))]
     @ spread_when (truthy (of_string (DataPurchaseParams.customerReference p)))
         [(''customer_reference'', of_string (DataPurchaseParams.customerReference p))]"
  have run: "purchaseData net p tr =
            (case net \<lparr>req_endpoint = ''/data'', req_method = ''POST'', req_body = Some ?b\<rparr> of
               Inl e \<Rightarrow> Inl e | Inr response \<Rightarrow> Inr (APIResponse.data response),
             tr @ [\<lparr>req_endpoint = ''/data'', req_method = ''POST'', req_body = Some ?b\<rparr>])"
    using assms unfolding purchaseData_def makeRequest_def Let_def
    by (auto split: sum.splits)
  have pc: "map_of ?b ''package_code'' =
              (if truthy (of_string (DataPurchaseParams.packageCode p))
               then Some (of_string (DataPurchaseParams.packageCode p)) else None)"
    by (simp add: spread_when_def)
  have pid: "map_of ?b ''plan_id'' =
              (if truthy (of_number (DataPurchaseParams.planId p))
                  \<and> \<not> truthy (of_string (DataPurchaseParams.packageCode p))
               then Some (of_number (DataPurchaseParams.planId p)) else None)"
    by (simp add: spread_when_def)
  have d: "distinct (map fst ?b)"
    by (simp add: spread_when_def)
  from run pc pid d show ?thesis by blast
qed

lemma vendDataFromWallet_no_phone:
  "\<not> truthy (of_string (DataWalletVendParams.phone q)) \<Longrightarrow>
     vendDataFromWallet net q tr = (Inl (Error (js ''phone is required'')), tr)"
  by (simp add: vendDataFromWallet_def)

lemma vendDataFromWallet_no_plan:
  "truthy (of_string (DataWalletVendParams.phone q)) \<Longrightarrow>
   \<not> truthy (of_string (DataWalletVendParams.packageCode q)) \<Longrightarrow>
   \<not> truthy (of_number (DataWalletVendParams.planId q)) \<Longrightarrow>
     vendDataFromWallet net q tr =
       (Inl (Error (js ''Either packageCode or planId is required'')), tr)"
  by (simp add: vendDataFromWallet_def)

lemma vendDataFromWallet_bad_processType:
  \<open>truthy (of_string (DataWalletVendParams.phone q)) \<Longrightarrow>
   truthy (of_string (DataWalletVendParams.packageCode q))
     \<or> truthy (of_number (DataWalletVendParams.planId q)) \<Longrightarrow>
   truthy (of_string (DataWalletVendParams.processType q)) \<Longrightarrow>
   \<not> array_includes [js ''queue'', js ''instant''] (of_string (DataWalletVendParams.processType q)) \<Longrightarrow>
     vendDataFromWallet net q tr =
       (Inl (Error (js ''processType must be either "queue" or "instant"'')), tr)\<close>
  by (auto simp add: vendDataFromWallet_def)

lemma vendDataFromWallet_sends:
  assumes "truthy (of_string (DataWalletVendParams.phone q))"
    and "truthy (of_string (DataWalletVendParams.packageCode q))
         \<or> truthy (of_number (DataWalletVendParams.planId q))"
    and "\<not> truthy (of_string (DataWalletVendParams.processType q))
         \<or> array_includes [js ''queue'', js ''instant'']
              (of_string (DataWalletVendParams.processType q))"
  shows "\<exists>b. vendDataFromWallet net q tr =
            (case net \<lparr>req_endpoint = ''/data/wallet'', req_method = ''POST'', req_body = Some b\<rparr> of
               Inl e \<Rightarrow> Inl e | Inr response \<Rightarrow> Inr (APIResponse.data response),
             tr @ [\<lparr>req_endpoint = ''/data/wallet'', req_method = ''POST'', req_body = Some b\<rparr>])
          \<and> map_of b ''package_code'' =
              (if truthy (of_string (DataWalletVendParams.packageCode q))
               then Some (of_string (DataWalletVendParams.packageCode q)) else None)
          \<and> map_of b ''plan_id'' =
              (if truthy (of_number (DataWalletVendParams.planId q))
                  \<and> \<not> truthy (of_string (DataWalletVendParams.packageCode q))
               then Some (of_number (DataWalletVendParams.planId q)) else None)
          \<and> map_of b ''process_type'' =
              (if truthy (of_string (DataWalletVendParams.processType q))
               then Some (of_string (DataWalletVendParams.processType q)) else None)
          \<and> distinct (map fst b)"
proof -
  let ?b = "[(''phone'', of_string (DataWalletVendParams.phone q))]
     @ spread_when (truthy (of_string (DataWalletVendParams.packageCode q)))
         [(''package_code'', of_string (DataWalletVendParams.packageCode q))]
     @ spread_when (truthy (of_number (DataWalletVendParams.planId q))
           \<and> \<not> truthy (of_string (DataWalletVendParams.packageCode q)))
         [(''plan_id'', of_number (DataWalletVendParams.planId q))]
     @ spread_when (truthy (of_string (DataWalletVendParams.processType q)))
         [(''process_type'', of_string (DataWalletVendParams.processType q))]
     @ spread_when (truthy (of_string (DataWalletVendParams.callbackUrl q)))
         [(''callback_url'', of_string (DataWalletVendParams.callbackUrl q))]
     @ spread_when (truthy (of_string (DataWalletVendParams.customerReference q)))
         [(''customer_reference'', of_string (DataWalletVendParams.customerReference q))]"
  have run: "vendDataFromWallet net q tr =
            (case net \<lparr>req_endpoint = ''/data/wallet'', req_method = ''POST'', req_body = Some ?b\<rparr> of
               Inl e \<Rightarrow> Inl e | Inr response \<Rightarrow> Inr (APIResponse.data response),
             tr @ [\<lparr>req_endpoint = ''/data/wallet'', req_method = ''POST'', req_body = Some ?b\<rparr>])"
    using assms unfolding vendDataFromWallet_def makeRequest_def Let_def
    by (auto split: sum.splits)
  have pc: "map_of ?b ''package_code'' =
              (if truthy (of_string (DataWalletVendParams.packageCode q))
               then Some (of_string (DataWalletVendParams.packageCode q)) else None)"
    by (simp add: spread_when_def)
  have pid: "map_of ?b ''plan_id'' =
              (if truthy (of_number (DataWalletVendParams.planId q))
                  \<and> \<not> truthy (of_string (DataWalletVendParams.packageCode q))
               then Some (of_number (DataWalletVendParams.planId q)) else None)"
    by (simp add: spread_when_def)
  have pt: "map_of ?b ''process_type'' =
              (if truthy (of_string (DataWalletVendParams.processType q))
               then Some (of_string (DataWalletVendParams.processType q)) else None)"
    by (simp add: spread_when_def)
  have d: "distinct (map fst ?b)"
    by (simp add: spread_when_def)
  from run pc pid pt d show ?thesis by blast
qed

lemma processType_ok_iff:
  "\<not> truthy (of_string v) \<or> array_includes [js ''queue'', js ''instant''] (of_string v)
     \<longleftrightarrow> v = None \<or> v = Some [] \<or> v = Some (js ''queue'') \<or> v = Some (js ''instant'')"
  by (cases v) (auto simp: array_includes_def)

lemma js_nonempty:
  "js ''08012345678'' \<noteq> []" "js ''MTN_1GB'' \<noteq> []" "js ''queue'' \<noteq> []" "js ''instant'' \<noteq> []"
  "js ''later'' \<noteq> []" "js '''' = []"
  by (simp_all add: js_def)

lemma truthy_not_falsy: "truthy v \<Longrightarrow> v \<noteq> JNumber (Num 0) \<and> v \<noteq> JString []"
  by auto

section \<open>The claims about the purchase operations\<close>

text \<open>
  C1. A call to \<open>purchaseAirtime\<close> whose \<open>networkOperator\<close>, \<open>phone\<close>, \<open>amount\<close> or
  \<open>maxAmount\<close> is missing, whose \<open>networkOperator\<close> is not one of mtn, airtel, glo and
  9mobile, or whose \<open>amount\<close> is below 50 or above 50000, is rejected with one of the
  three validation messages. The outcome is the same whatever the remote side would
  answer, and the list of requests is unchanged: \<open>makeRequest\<close> is not invoked.
\<close>

theorem purchaseAirtime_rejects_invalid:
  assumes "AirtimePurchaseParams.networkOperator p = None
         \<or> AirtimePurchaseParams.phone p = None
         \<or> AirtimePurchaseParams.amount p = None
         \<or> AirtimePurchaseParams.maxAmount p = None
         \<or> (\<exists>operator. AirtimePurchaseParams.networkOperator p = Some operator
               \<and> operator \<notin> set [js ''mtn'', js ''airtel'', js ''glo'', js ''9mobile''])
         \<or> (\<exists>a. AirtimePurchaseParams.amount p = Some a
               \<and> (number_less a (Num 50) \<or> number_less (Num 50000) a))"
  shows "\<exists>msg. msg \<in> set [js ''networkOperator, phone, amount, and maxAmount are required'',
                         js ''Invalid network operator. Must be one of: mtn, airtel, glo, 9mobile'',
                         js ''Amount must be between 50 and 50000 NGN'']
           \<and> (\<forall>net :: 'r transport. purchaseAirtime net p tr = (Inl (Error msg), tr))"
proof -
  let ?required = "\<not> truthy (of_string (AirtimePurchaseParams.networkOperator p))
        \<or> \<not> truthy (of_string (AirtimePurchaseParams.phone p))
        \<or> \<not> truthy (of_number (AirtimePurchaseParams.amount p))
        \<or> \<not> truthy (of_string (AirtimePurchaseParams.maxAmount p))"
  let ?operator = "\<not> array_includes network_operators (of_string (AirtimePurchaseParams.networkOperator p))"
  let ?range = "(case AirtimePurchaseParams.amount p of None \<Rightarrow> False
              | Some a \<Rightarrow> number_less a (Num 50) \<or> number_less (Num 50000) a)"
  from assms have "?required \<or> ?operator \<or> ?range"
    by (auto simp: array_includes_iff network_operators_def)
  then consider (a) ?required | (b) "\<not> ?required" ?operator
    | (c) "\<not> ?required" "\<not> ?operator" ?range
    by blast
  then show ?thesis
  proof cases
    case a
    then have "\<forall>net :: 'r transport. purchaseAirtime net p tr =
       (Inl (Error (js ''networkOperator, phone, amount, and maxAmount are required'')), tr)"
      by (simp only: purchaseAirtime_cases if_True) simp
    then show ?thesis by (intro exI[of _ "js ''networkOperator, phone, amount, and maxAmount are required''"]) simp
  next
    case b
    then have "\<forall>net :: 'r transport. purchaseAirtime net p tr =
       (Inl (Error (js ''Invalid network operator. Must be one of: mtn, airtel, glo, 9mobile'')), tr)"
      by (simp only: purchaseAirtime_cases if_True if_False) simp
    then show ?thesis by (intro exI[of _ "js ''Invalid network operator. Must be one of: mtn, airtel, glo, 9mobile''"]) simp
  next
    case c
    then have "\<forall>net :: 'r transport. purchaseAirtime net p tr =
       (Inl (Error (js ''Amount must be between 50 and 50000 NGN'')), tr)"
      by (simp only: purchaseAirtime_cases if_True if_False) simp
    then show ?thesis by (intro exI[of _ "js ''Amount must be between 50 and 50000 NGN''"]) simp
  qed
qed

text \<open>
  The examples of the specification: operator sprint, amount 25 and amount 60000.
\<close>

theorem purchaseAirtime_rejects_invalid_witness:
  "js ''sprint'' \<notin> set [js ''mtn'', js ''airtel'', js ''glo'', js ''9mobile'']
   \<and> (\<exists>msg. msg \<in> set [js ''networkOperator, phone, amount, and maxAmount are required'',
                         js ''Invalid network operator. Must be one of: mtn, airtel, glo, 9mobile'',
                         js ''Amount must be between 50 and 50000 NGN'']
         \<and> (\<forall>net :: unit transport. purchaseAirtime net
               \<lparr>AirtimePurchaseParams.networkOperator = Some (js ''sprint''),
                phone = Some (js ''08012345678''), amount = Some (Num 100),
                maxAmount = Some (js ''150''), callbackUrl = None,
                customerReference = None\<rparr> [] = (Inl (Error msg), [])))
   \<and> number_less (Num 25) (Num 50)
   \<and> (\<exists>msg. msg \<in> set [js ''networkOperator, phone, amount, and maxAmount are required'',
                         js ''Invalid network operator. Must be one of: mtn, airtel, glo, 9mobile'',
                         js ''Amount must be between 50 and 50000 NGN'']
         \<and> (\<forall>net :: unit transport. purchaseAirtime net
               \<lparr>AirtimePurchaseParams.networkOperator = Some (js ''mtn''),
                phone = Some (js ''08012345678''), amount = Some (Num 25),
                maxAmount = Some (js ''50''), callbackUrl = None,
                customerReference = None\<rparr> [] = (Inl (Error msg), [])))
   \<and> number_less (Num 50000) (Num 60000)
   \<and> (\<exists>msg. msg \<in> set [js ''networkOperator, phone, amount, and maxAmount are required'',
                         js ''Invalid network operator. Must be one of: mtn, airtel, glo, 9mobile'',
                         js ''Amount must be between 50 and 50000 NGN'']
         \<and> (\<forall>net :: unit transport. purchaseAirtime net
               \<lparr>AirtimePurchaseParams.networkOperator = Some (js ''mtn''),
                phone = Some (js ''08012345678''), amount = Some (Num 60000),
                maxAmount = Some (js ''70000''), callbackUrl = None,
                customerReference = None\<rparr> [] = (Inl (Error msg), [])))"
proof -
  have h1: "js ''sprint'' \<notin> set [js ''mtn'', js ''airtel'', js ''glo'', js ''9mobile'']"
    by (simp add: js_def)
  have h2: "number_less (Num 25) (Num 50)" and h3: "number_less (Num 50000) (Num 60000)"
    by simp_all
  have w1: "\<exists>msg. msg \<in> set [js ''networkOperator, phone, amount, and maxAmount are required'',
                         js ''Invalid network operator. Must be one of: mtn, airtel, glo, 9mobile'',
                         js ''Amount must be between 50 and 50000 NGN'']
         \<and> (\<forall>net :: unit transport. purchaseAirtime net
               \<lparr>AirtimePurchaseParams.networkOperator = Some (js ''sprint''),
                phone = Some (js ''08012345678''), amount = Some (Num 100),
                maxAmount = Some (js ''150''), callbackUrl = None,
                customerReference = None\<rparr> [] = (Inl (Error msg), []))"
    by (rule purchaseAirtime_rejects_invalid) (use h1 in simp)
  have w2: "\<exists>msg. msg \<in> set [js ''networkOperator, phone, amount, and maxAmount are required'',
                         js ''Invalid network operator. Must be one of: mtn, airtel, glo, 9mobile'',
                         js ''Amount must be between 50 and 50000 NGN'']
         \<and> (\<forall>net :: unit transport. purchaseAirtime net
               \<lparr>AirtimePurchaseParams.networkOperator = Some (js ''mtn''),
                phone = Some (js ''08012345678''), amount = Some (Num 25),
                maxAmount = Some (js ''50''), callbackUrl = None,
                customerReference = None\<rparr> [] = (Inl (Error msg), []))"
    by (rule purchaseAirtime_rejects_invalid) (use h2 in simp)
  have w3: "\<exists>msg. msg \<in> set [js ''networkOperator, phone, amount, and maxAmount are required'',
                         js ''Invalid network operator. Must be one of: mtn, airtel, glo, 9mobile'',
                         js ''Amount must be between 50 and 50000 NGN'']
         \<and> (\<forall>net :: unit transport. purchaseAirtime net
               \<lparr>AirtimePurchaseParams.networkOperator = Some (js ''mtn''),
                phone = Some (js ''08012345678''), amount = Some (Num 60000),
                maxAmount = Some (js ''70000''), callbackUrl = None,
                customerReference = None\<rparr> [] = (Inl (Error msg), []))"
    by (rule purchaseAirtime_rejects_invalid) (use h3 in simp)
  from h1 h2 h3 w1 w2 w3 show ?thesis by blast
qed

text \<open>
  C2, as amended. For \<open>purchaseData\<close> and for \<open>vendDataFromWallet\<close>: when neither
  \<open>packageCode\<close> nor \<open>planId\<close> is supplied, the call is rejected with a validation message
  and no request is made. When the phone is non-empty and \<open>packageCode\<close> is a non-empty
  string, one request is made whose body has \<open>package_code\<close> with that code and no
  \<open>plan_id\<close>, whatever \<open>planId\<close> is. When the phone is non-empty, \<open>packageCode\<close> is missing
  or empty and \<open>planId\<close> is a number other than zero and \<open>NaN\<close>, one request is made whose body
  has \<open>plan_id\<close> with that number and no \<open>package_code\<close>. For \<open>vendDataFromWallet\<close> the two
  last cases need a \<open>processType\<close> that passes its own check.
\<close>

theorem plan_identifier_in_request_body:
  fixes net :: "'r transport"
  shows
  "(DataPurchaseParams.packageCode p = None \<and> DataPurchaseParams.planId p = None \<longrightarrow>
      (\<exists>msg. msg \<in> set [js ''phone is required'', js ''Either packageCode or planId is required'']
         \<and> (\<forall>net :: 'r transport. purchaseData net p tr = (Inl (Error msg), tr))))
   \<and> (\<forall>ph code. DataPurchaseParams.phone p = Some ph \<and> ph \<noteq> []
         \<and> DataPurchaseParams.packageCode p = Some code \<and> code \<noteq> [] \<longrightarrow>
      (\<exists>b. snd (purchaseData net p tr) =
              tr @ [\<lparr>req_endpoint = ''/data'', req_method = ''POST'', req_body = Some b\<rparr>]
         \<and> map_of b ''package_code'' = Some (JString code) \<and> map_of b ''plan_id'' = None))
   \<and> (\<forall>ph n. DataPurchaseParams.phone p = Some ph \<and> ph \<noteq> []
         \<and> (DataPurchaseParams.packageCode p = None \<or> DataPurchaseParams.packageCode p = Some [])
         \<and> DataPurchaseParams.planId p = Some n \<and> n \<noteq> Num 0 \<and> n \<noteq> NaN \<longrightarrow>
      (\<exists>b. snd (purchaseData net p tr) =
              tr @ [\<lparr>req_endpoint = ''/data'', req_method = ''POST'', req_body = Some b\<rparr>]
         \<and> map_of b ''plan_id'' = Some (JNumber n) \<and> map_of b ''package_code'' = None))
   \<and> (DataWalletVendParams.packageCode q = None \<and> DataWalletVendParams.planId q = None \<longrightarrow>
      (\<exists>msg. msg \<in> set [js ''phone is required'', js ''Either packageCode or planId is required'']
         \<and> (\<forall>net :: 'r transport. vendDataFromWallet net q tr = (Inl (Error msg), tr))))
   \<and> (\<forall>ph code. DataWalletVendParams.phone q = Some ph \<and> ph \<noteq> []
         \<and> DataWalletVendParams.packageCode q = Some code \<and> code \<noteq> []
         \<and> (DataWalletVendParams.processType q = None
              \<or> DataWalletVendParams.processType q = Some []
              \<or> DataWalletVendParams.processType q = Some (js ''queue'')
              \<or> DataWalletVendParams.processType q = Some (js ''instant'')) \<longrightarrow>
      (\<exists>b. snd (vendDataFromWallet net q tr) =
              tr @ [\<lparr>req_endpoint = ''/data/wallet'', req_method = ''POST'', req_body = Some b\<rparr>]
         \<and> map_of b ''package_code'' = Some (JString code) \<and> map_of b ''plan_id'' = None))
   \<and> (\<forall>ph n. DataWalletVendParams.phone q = Some ph \<and> ph \<noteq> []
         \<and> (DataWalletVendParams.packageCode q = None \<or> DataWalletVendParams.packageCode q = Some [])
         \<and> DataWalletVendParams.planId q = Some n \<and> n \<noteq> Num 0 \<and> n \<noteq> NaN
         \<and> (DataWalletVendParams.processType q = None
              \<or> DataWalletVendParams.processType q = Some []
              \<or> DataWalletVendParams.processType q = Some (js ''queue'')
              \<or> DataWalletVendParams.processType q = Some (js ''instant'')) \<longrightarrow>
      (\<exists>b. snd (vendDataFromWallet net q tr) =
              tr @ [\<lparr>req_endpoint = ''/data/wallet'', req_method = ''POST'', req_body = Some b\<rparr>]
         \<and> map_of b ''plan_id'' = Some (JNumber n) \<and> map_of b ''package_code'' = None))"
proof -
  have a: "\<exists>msg. msg \<in> set [js ''phone is required'', js ''Either packageCode or planId is required'']
         \<and> (\<forall>net :: 'r transport. purchaseData net p tr = (Inl (Error msg), tr))"
    if "DataPurchaseParams.packageCode p = None \<and> DataPurchaseParams.planId p = None"
  proof (cases "truthy (of_string (DataPurchaseParams.phone p))")
    case True
    with that have "\<forall>net :: 'r transport. purchaseData net p tr =
        (Inl (Error (js ''Either packageCode or planId is required'')), tr)"
      by (simp add: purchaseData_no_plan)
    then show ?thesis
      by (intro exI[of _ "js ''Either packageCode or planId is required''"]) simp
  next
    case False
    then have "\<forall>net :: 'r transport. purchaseData net p tr =
        (Inl (Error (js ''phone is required'')), tr)"
      by (simp add: purchaseData_no_phone)
    then show ?thesis by (intro exI[of _ "js ''phone is required''"]) simp
  qed
  have b: "\<exists>b. snd (purchaseData net p tr) =
              tr @ [\<lparr>req_endpoint = ''/data'', req_method = ''POST'', req_body = Some b\<rparr>]
         \<and> map_of b ''package_code'' = Some (JString code) \<and> map_of b ''plan_id'' = None"
    if "DataPurchaseParams.phone p = Some ph \<and> ph \<noteq> []
         \<and> DataPurchaseParams.packageCode p = Some code \<and> code \<noteq> []" for ph code
  proof -
    from that have "truthy (of_string (DataPurchaseParams.phone p))"
      "truthy (of_string (DataPurchaseParams.packageCode p))
         \<or> truthy (of_number (DataPurchaseParams.planId p))" by simp_all
    from purchaseData_sends[OF this, of net tr] that show ?thesis by auto
  qed
  have c: "\<exists>b. snd (purchaseData net p tr) =
              tr @ [\<lparr>req_endpoint = ''/data'', req_method = ''POST'', req_body = Some b\<rparr>]
         \<and> map_of b ''plan_id'' = Some (JNumber n) \<and> map_of b ''package_code'' = None"
    if "DataPurchaseParams.phone p = Some ph \<and> ph \<noteq> []
         \<and> (DataPurchaseParams.packageCode p = None \<or> DataPurchaseParams.packageCode p = Some [])
         \<and> DataPurchaseParams.planId p = Some n \<and> n \<noteq> Num 0 \<and> n \<noteq> NaN" for ph n
  proof -
    from that have t: "truthy (of_string (DataPurchaseParams.phone p))"
      "truthy (of_number (DataPurchaseParams.planId p))"
      "\<not> truthy (of_string (DataPurchaseParams.packageCode p))"
      by (auto simp: truthy_JNumber)
    then have "truthy (of_string (DataPurchaseParams.packageCode p))
         \<or> truthy (of_number (DataPurchaseParams.planId p))" by simp
    from purchaseData_sends[OF t(1) this, of net tr] that t show ?thesis by auto
  qed
  have a': "\<exists>msg. msg \<in> set [js ''phone is required'', js ''Either packageCode or planId is required'']
         \<and> (\<forall>net :: 'r transport. vendDataFromWallet net q tr = (Inl (Error msg), tr))"
    if "DataWalletVendParams.packageCode q = None \<and> DataWalletVendParams.planId q = None"
  proof (cases "truthy (of_string (DataWalletVendParams.phone q))")
    case True
    with that have "\<forall>net :: 'r transport. vendDataFromWallet net q tr =
        (Inl (Error (js ''Either packageCode or planId is required'')), tr)"
      by (simp add: vendDataFromWallet_no_plan)
    then show ?thesis
      by (intro exI[of _ "js ''Either packageCode or planId is required''"]) simp
  next
    case False
    then have "\<forall>net :: 'r transport. vendDataFromWallet net q tr =
        (Inl (Error (js ''phone is required'')), tr)"
      by (simp add: vendDataFromWallet_no_phone)
    then show ?thesis by (intro exI[of _ "js ''phone is required''"]) simp
  qed
  have b': "\<exists>b. snd (vendDataFromWallet net q tr) =
              tr @ [\<lparr>req_endpoint = ''/data/wallet'', req_method = ''POST'', req_body = Some b\<rparr>]
         \<and> map_of b ''package_code'' = Some (JString code) \<and> map_of b ''plan_id'' = None"
    if "DataWalletVendParams.phone q = Some ph \<and> ph \<noteq> []
         \<and> DataWalletVendParams.packageCode q = Some code \<and> code \<noteq> []
         \<and> (DataWalletVendParams.processType q = None
              \<or> DataWalletVendParams.processType q = Some []
              \<or> DataWalletVendParams.processType q = Some (js ''queue'')
              \<or> DataWalletVendParams.processType q = Some (js ''instant''))" for ph code
  proof -
    from that have t: "truthy (of_string (DataWalletVendParams.phone q))"
      "truthy (of_string (DataWalletVendParams.packageCode q))
         \<or> truthy (of_number (DataWalletVendParams.planId q))"
      by simp_all
    from that have pt: "\<not> truthy (of_string (DataWalletVendParams.processType q))
         \<or> array_includes [js ''queue'', js ''instant'']
              (of_string (DataWalletVendParams.processType q))"
      using processType_ok_iff[of "DataWalletVendParams.processType q"] by blast
    from vendDataFromWallet_sends[OF t pt, of net tr] that show ?thesis by auto
  qed
  have c': "\<exists>b. snd (vendDataFromWallet net q tr) =
              tr @ [\<lparr>req_endpoint = ''/data/wallet'', req_method = ''POST'', req_body = Some b\<rparr>]
         \<and> map_of b ''plan_id'' = Some (JNumber n) \<and> map_of b ''package_code'' = None"
    if "DataWalletVendParams.phone q = Some ph \<and> ph \<noteq> []
         \<and> (DataWalletVendParams.packageCode q = None \<or> DataWalletVendParams.packageCode q = Some [])
         \<and> DataWalletVendParams.planId q = Some n \<and> n \<noteq> Num 0 \<and> n \<noteq> NaN
         \<and> (DataWalletVendParams.processType q = None
              \<or> DataWalletVendParams.processType q = Some []
              \<or> DataWalletVendParams.processType q = Some (js ''queue'')
              \<or> DataWalletVendParams.processType q = Some (js ''instant''))" for ph n
  proof -
    from that have t: "truthy (of_string (DataWalletVendParams.phone q))"
      "truthy (of_number (DataWalletVendParams.planId q))"
      "\<not> truthy (of_string (DataWalletVendParams.packageCode q))"
      by (auto simp: truthy_JNumber)
    then have pl: "truthy (of_string (DataWalletVendParams.packageCode q))
         \<or> truthy (of_number (DataWalletVendParams.planId q))" by simp
    from that have pt: "\<not> truthy (of_string (DataWalletVendParams.processType q))
         \<or> array_includes [js ''queue'', js ''instant'']
              (of_string (DataWalletVendParams.processType q))"
      using processType_ok_iff[of "DataWalletVendParams.processType q"] by blast
    from vendDataFromWallet_sends[OF t(1) pl pt, of net tr] that t show ?thesis by auto
  qed
  from a b c a' b' c' show ?thesis by blast
qed

text \<open>
  Instances: no identifier; both identifiers; only a plan id.
\<close>

theorem plan_identifier_in_request_body_witness:
  "(\<exists>msg. msg \<in> set [js ''phone is required'', js ''Either packageCode or planId is required'']
      \<and> (\<forall>net :: unit transport. purchaseData net
           \<lparr>DataPurchaseParams.phone = Some (js ''08012345678''), packageCode = None,
            planId = None, maxAmount = None, callbackUrl = None,
            customerReference = None\<rparr> [] = (Inl (Error msg), [])))
   \<and> (\<exists>b. snd (purchaseData accepting_server
           \<lparr>DataPurchaseParams.phone = Some (js ''08012345678''),
            packageCode = Some (js ''MTN_1GB''), planId = Some (Num 123), maxAmount = None,
            callbackUrl = None, customerReference = None\<rparr> [])
          = [\<lparr>req_endpoint = ''/data'', req_method = ''POST'', req_body = Some b\<rparr>]
        \<and> map_of b ''package_code'' = Some (JString (js ''MTN_1GB''))
        \<and> map_of b ''plan_id'' = None)
   \<and> (\<exists>b. snd (purchaseData accepting_server
           \<lparr>DataPurchaseParams.phone = Some (js ''08012345678''),
            packageCode = None, planId = Some (Num 123), maxAmount = None,
            callbackUrl = None, customerReference = None\<rparr> [])
          = [\<lparr>req_endpoint = ''/data'', req_method = ''POST'', req_body = Some b\<rparr>]
        \<and> map_of b ''plan_id'' = Some (JNumber (Num 123))
        \<and> map_of b ''package_code'' = None)
   \<and> (\<exists>msg. msg \<in> set [js ''phone is required'', js ''Either packageCode or planId is required'']
      \<and> (\<forall>net :: unit transport. vendDataFromWallet net
           \<lparr>DataWalletVendParams.phone = Some (js ''08012345678''), packageCode = None,
            planId = None, processType = Some (js ''instant''), callbackUrl = None,
            customerReference = None\<rparr> [] = (Inl (Error msg), [])))
   \<and> (\<exists>b. snd (vendDataFromWallet accepting_server
           \<lparr>DataWalletVendParams.phone = Some (js ''08012345678''),
            packageCode = Some (js ''MTN_1GB''), planId = Some (Num 123),
            processType = Some (js ''instant''), callbackUrl = None,
            customerReference = None\<rparr> [])
          = [\<lparr>req_endpoint = ''/data/wallet'', req_method = ''POST'', req_body = Some b\<rparr>]
        \<and> map_of b ''package_code'' = Some (JString (js ''MTN_1GB''))
        \<and> map_of b ''plan_id'' = None)
   \<and> (\<exists>b. snd (vendDataFromWallet accepting_server
           \<lparr>DataWalletVendParams.phone = Some (js ''08012345678''),
            packageCode = None, planId = Some (Num 123),
            processType = Some (js ''instant''), callbackUrl = None,
            customerReference = None\<rparr> [])
          = [\<lparr>req_endpoint = ''/data/wallet'', req_method = ''POST'', req_body = Some b\<rparr>]
        \<and> map_of b ''plan_id'' = Some (JNumber (Num 123))
        \<and> map_of b ''package_code'' = None)"
  using
    plan_identifier_in_request_body[where net = accepting_server and tr = "[]"
      and p = "\<lparr>DataPurchaseParams.phone = Some (js ''08012345678''), packageCode = None,
            planId = None, maxAmount = None, callbackUrl = None, customerReference = None\<rparr>"
      and q = "\<lparr>DataWalletVendParams.phone = Some (js ''08012345678''), packageCode = None,
            planId = None, processType = Some (js ''instant''), callbackUrl = None,
            customerReference = None\<rparr>"]
    plan_identifier_in_request_body[where net = accepting_server and tr = "[]"
      and p = "\<lparr>DataPurchaseParams.phone = Some (js ''08012345678''),
            packageCode = Some (js ''MTN_1GB''), planId = Some (Num 123), maxAmount = None,
            callbackUrl = None, customerReference = None\<rparr>"
      and q = "\<lparr>DataWalletVendParams.phone = Some (js ''08012345678''),
            packageCode = Some (js ''MTN_1GB''), planId = Some (Num 123),
            processType = Some (js ''instant''), callbackUrl = None,
            customerReference = None\<rparr>"]
    plan_identifier_in_request_body[where net = accepting_server and tr = "[]"
      and p = "\<lparr>DataPurchaseParams.phone = Some (js ''08012345678''),
            packageCode = None, planId = Some (Num 123), maxAmount = None,
            callbackUrl = None, customerReference = None\<rparr>"
      and q = "\<lparr>DataWalletVendParams.phone = Some (js ''08012345678''),
            packageCode = None, planId = Some (Num 123),
            processType = Some (js ''instant''), callbackUrl = None,
            customerReference = None\<rparr>"]
  by (simp add: js_nonempty)

text \<open>
  Without the restriction to a non-empty package code the property fails: with both
  identifiers supplied, the package code being the empty string, the body carries
  \<open>plan_id\<close> and no \<open>package_code\<close>.
\<close>

theorem plan_identifier_counterexample:
  "snd (purchaseData accepting_server
         \<lparr>DataPurchaseParams.phone = Some (js ''08012345678''), packageCode = Some (js ''''),
          planId = Some (Num 7), maxAmount = None, callbackUrl = None,
          customerReference = None\<rparr> [])
   = [\<lparr>req_endpoint = ''/data'', req_method = ''POST'',
       req_body = Some [(''phone'', JString (js ''08012345678'')), (''plan_id'', JNumber (Num 7))]\<rparr>]"
  by (simp add: purchaseData_def makeRequest_def accepting_server_def spread_when_def js_nonempty)

text \<open>
  C3, as amended. A call to \<open>vendDataFromWallet\<close> whose \<open>processType\<close> is a non-empty
  string other than \<open>queue\<close> and \<open>instant\<close> is rejected with a validation message and
  no request is made. When the checks on the phone and on the plan identifier pass: with
  \<open>processType\<close> missing or empty, the body of the request has no \<open>process_type\<close>; with
  \<open>processType\<close> equal to \<open>queue\<close> or \<open>instant\<close>, the body's \<open>process_type\<close> is that string.
\<close>

theorem processType_validation:
  fixes net :: "'r transport"
  shows
  \<open>(\<forall>t. DataWalletVendParams.processType q = Some t \<and> t \<noteq> []
        \<and> t \<noteq> js ''queue'' \<and> t \<noteq> js ''instant'' \<longrightarrow>
      (\<exists>msg. msg \<in> set [js ''phone is required'',
                          js ''Either packageCode or planId is required'',
                          js ''processType must be either "queue" or "instant"'']
         \<and> (\<forall>net :: 'r transport. vendDataFromWallet net q tr = (Inl (Error msg), tr))))
   \<and> (truthy (of_string (DataWalletVendParams.phone q))
       \<and> (truthy (of_string (DataWalletVendParams.packageCode q))
            \<or> truthy (of_number (DataWalletVendParams.planId q)))
       \<and> (DataWalletVendParams.processType q = None
            \<or> DataWalletVendParams.processType q = Some []) \<longrightarrow>
      (\<exists>b. snd (vendDataFromWallet net q tr) =
              tr @ [\<lparr>req_endpoint = ''/data/wallet'', req_method = ''POST'', req_body = Some b\<rparr>]
         \<and> map_of b ''process_type'' = None))
   \<and> (\<forall>t. truthy (of_string (DataWalletVendParams.phone q))
       \<and> (truthy (of_string (DataWalletVendParams.packageCode q))
            \<or> truthy (of_number (DataWalletVendParams.planId q)))
       \<and> DataWalletVendParams.processType q = Some t
       \<and> (t = js ''queue'' \<or> t = js ''instant'') \<longrightarrow>
      (\<exists>b. snd (vendDataFromWallet net q tr) =
              tr @ [\<lparr>req_endpoint = ''/data/wallet'', req_method = ''POST'', req_body = Some b\<rparr>]
         \<and> map_of b ''process_type'' = Some (JString t)))\<close>
proof -
  have a: \<open>\<exists>msg. msg \<in> set [js ''phone is required'',
                          js ''Either packageCode or planId is required'',
                          js ''processType must be either "queue" or "instant"'']
         \<and> (\<forall>net :: 'r transport. vendDataFromWallet net q tr = (Inl (Error msg), tr))\<close>
    if h: "DataWalletVendParams.processType q = Some t \<and> t \<noteq> []
        \<and> t \<noteq> js ''queue'' \<and> t \<noteq> js ''instant''" for t
  proof -
    from h have bad: "truthy (of_string (DataWalletVendParams.processType q))"
      "\<not> array_includes [js ''queue'', js ''instant'']
           (of_string (DataWalletVendParams.processType q))"
      by (auto simp: array_includes_def)
    consider (phone) "\<not> truthy (of_string (DataWalletVendParams.phone q))"
      | (plan) "truthy (of_string (DataWalletVendParams.phone q))"
          "\<not> truthy (of_string (DataWalletVendParams.packageCode q))"
          "\<not> truthy (of_number (DataWalletVendParams.planId q))"
      | (ptype) "truthy (of_string (DataWalletVendParams.phone q))"
          "truthy (of_string (DataWalletVendParams.packageCode q))
            \<or> truthy (of_number (DataWalletVendParams.planId q))"
      by blast
    then show ?thesis
    proof cases
      case phone
      then have "\<forall>net :: 'r transport. vendDataFromWallet net q tr =
          (Inl (Error (js ''phone is required'')), tr)"
        by (simp add: vendDataFromWallet_no_phone)
      then show ?thesis by (intro exI[of _ "js ''phone is required''"]) simp
    next
      case plan
      then have "\<forall>net :: 'r transport. vendDataFromWallet net q tr =
          (Inl (Error (js ''Either packageCode or planId is required'')), tr)"
        by (simp add: vendDataFromWallet_no_plan)
      then show ?thesis
        by (intro exI[of _ "js ''Either packageCode or planId is required''"]) simp
    next
      case ptype
      with bad have \<open>\<forall>net :: 'r transport. vendDataFromWallet net q tr =
          (Inl (Error (js ''processType must be either "queue" or "instant"'')), tr)\<close>
        using vendDataFromWallet_bad_processType by blast
      then show ?thesis
        by (intro exI[of _ \<open>js ''processType must be either "queue" or "instant"''\<close>]) simp
    qed
  qed
  have b: "\<exists>b. snd (vendDataFromWallet net q tr) =
              tr @ [\<lparr>req_endpoint = ''/data/wallet'', req_method = ''POST'', req_body = Some b\<rparr>]
         \<and> map_of b ''process_type'' = None"
    if h: "truthy (of_string (DataWalletVendParams.phone q))
       \<and> (truthy (of_string (DataWalletVendParams.packageCode q))
            \<or> truthy (of_number (DataWalletVendParams.planId q)))
       \<and> (DataWalletVendParams.processType q = None
            \<or> DataWalletVendParams.processType q = Some [])"
  proof -
    from h have pt: "\<not> truthy (of_string (DataWalletVendParams.processType q))
         \<or> array_includes [js ''queue'', js ''instant'']
              (of_string (DataWalletVendParams.processType q))"
      using processType_ok_iff[of "DataWalletVendParams.processType q"] by blast
    from h have f: "\<not> truthy (of_string (DataWalletVendParams.processType q))" by auto
    from h have t: "truthy (of_string (DataWalletVendParams.phone q))"
      "truthy (of_string (DataWalletVendParams.packageCode q))
            \<or> truthy (of_number (DataWalletVendParams.planId q))" by blast+
    from vendDataFromWallet_sends[OF t pt, of net tr] f show ?thesis by auto
  qed
  have c: "\<exists>b. snd (vendDataFromWallet net q tr) =
              tr @ [\<lparr>req_endpoint = ''/data/wallet'', req_method = ''POST'', req_body = Some b\<rparr>]
         \<and> map_of b ''process_type'' = Some (JString t)"
    if h: "truthy (of_string (DataWalletVendParams.phone q))
       \<and> (truthy (of_string (DataWalletVendParams.packageCode q))
            \<or> truthy (of_number (DataWalletVendParams.planId q)))
       \<and> DataWalletVendParams.processType q = Some t
       \<and> (t = js ''queue'' \<or> t = js ''instant'')" for t
  proof -
    from h have pt: "\<not> truthy (of_string (DataWalletVendParams.processType q))
         \<or> array_includes [js ''queue'', js ''instant'']
              (of_string (DataWalletVendParams.processType q))"
      using processType_ok_iff[of "DataWalletVendParams.processType q"] by blast
    from h have f: "truthy (of_string (DataWalletVendParams.processType q))"
      "of_string (DataWalletVendParams.processType q) = JString t"
      by (auto simp: js_def)
    from h have t: "truthy (of_string (DataWalletVendParams.phone q))"
      "truthy (of_string (DataWalletVendParams.packageCode q))
            \<or> truthy (of_number (DataWalletVendParams.planId q))" by blast+
    from vendDataFromWallet_sends[OF t pt, of net tr] f show ?thesis by auto
  qed
  from a b c show ?thesis by blast
qed

text \<open>
  Instances: \<open>processType\<close> later (the example of the specification), missing, and queue.
\<close>

theorem processType_validation_witness:
  \<open>(\<exists>msg. msg \<in> set [js ''phone is required'',
                        js ''Either packageCode or planId is required'',
                        js ''processType must be either "queue" or "instant"'']
      \<and> (\<forall>net :: unit transport. vendDataFromWallet net
           \<lparr>DataWalletVendParams.phone = Some (js ''08012345678''),
            packageCode = Some (js ''MTN_1GB''), planId = None,
            processType = Some (js ''later''), callbackUrl = None,
            customerReference = None\<rparr> [] = (Inl (Error msg), [])))
   \<and> (\<exists>b. snd (vendDataFromWallet accepting_server
           \<lparr>DataWalletVendParams.phone = Some (js ''08012345678''),
            packageCode = Some (js ''MTN_1GB''), planId = None,
            processType = None, callbackUrl = None, customerReference = None\<rparr> [])
          = [\<lparr>req_endpoint = ''/data/wallet'', req_method = ''POST'', req_body = Some b\<rparr>]
        \<and> map_of b ''process_type'' = None)
   \<and> (\<exists>b. snd (vendDataFromWallet accepting_server
           \<lparr>DataWalletVendParams.phone = Some (js ''08012345678''),
            packageCode = Some (js ''MTN_1GB''), planId = None,
            processType = Some (js ''queue''), callbackUrl = None,
            customerReference = None\<rparr> [])
          = [\<lparr>req_endpoint = ''/data/wallet'', req_method = ''POST'', req_body = Some b\<rparr>]
        \<and> map_of b ''process_type'' = Some (JString (js ''queue'')))\<close>
proof -
  have ne: "js ''later'' \<noteq> js ''queue''" "js ''later'' \<noteq> js ''instant''"
    by (simp_all add: js_def)
  show ?thesis
    using
      processType_validation[where net = accepting_server and tr = "[]"
        and q = "\<lparr>DataWalletVendParams.phone = Some (js ''08012345678''),
            packageCode = Some (js ''MTN_1GB''), planId = None,
            processType = Some (js ''later''), callbackUrl = None,
            customerReference = None\<rparr>"]
      processType_validation[where net = accepting_server and tr = "[]"
        and q = "\<lparr>DataWalletVendParams.phone = Some (js ''08012345678''),
            packageCode = Some (js ''MTN_1GB''), planId = None,
            processType = None, callbackUrl = None, customerReference = None\<rparr>"]
      processType_validation[where net = accepting_server and tr = "[]"
        and q = "\<lparr>DataWalletVendParams.phone = Some (js ''08012345678''),
            packageCode = Some (js ''MTN_1GB''), planId = None,
            processType = Some (js ''queue''), callbackUrl = None,
            customerReference = None\<rparr>"]
    by (simp add: js_nonempty ne)
qed

text \<open>
  Without the restriction to a non-empty string the property fails: a \<open>processType\<close>
  supplied as the empty string is neither \<open>queue\<close> nor \<open>instant\<close>, yet the call is not
  rejected and the request is made.
\<close>

theorem processType_counterexample:
  "vendDataFromWallet accepting_server
     \<lparr>DataWalletVendParams.phone = Some (js ''08012345678''),
      packageCode = Some (js ''MTN_1GB''), planId = None, processType = Some (js ''''),
      callbackUrl = None, customerReference = None\<rparr> []
   = (Inr (),
      [\<lparr>req_endpoint = ''/data/wallet'', req_method = ''POST'',
        req_body = Some [(''phone'', JString (js ''08012345678'')),
                         (''package_code'', JString (js ''MTN_1GB''))]\<rparr>])"
  by (simp add: vendDataFromWallet_def makeRequest_def accepting_server_def spread_when_def
      js_nonempty)

text \<open>
  C10, as amended. In \<open>purchaseData\<close> and \<open>vendDataFromWallet\<close> a \<open>planId\<close> of zero and an
  empty \<open>packageCode\<close> count as absent: a call with a non-empty phone whose \<open>packageCode\<close>
  is missing or empty and whose \<open>planId\<close> is missing or zero is rejected with
  \<open>Either packageCode or planId is required\<close> and no request is made. Whatever the
  parameters, a call makes no request or one request, and the body of that request
  holds neither a \<open>plan_id\<close> of zero nor an empty \<open>package_code\<close>.
\<close>

theorem falsy_plan_identifiers_absent:
  fixes net :: "'r transport"
  shows
  "(\<forall>ph. DataPurchaseParams.phone p = Some ph \<and> ph \<noteq> []
        \<and> (DataPurchaseParams.packageCode p = None \<or> DataPurchaseParams.packageCode p = Some [])
        \<and> (DataPurchaseParams.planId p = None \<or> DataPurchaseParams.planId p = Some (Num 0)) \<longrightarrow>
      (\<forall>net :: 'r transport. purchaseData net p tr =
          (Inl (Error (js ''Either packageCode or planId is required'')), tr)))
   \<and> (snd (purchaseData net p tr) = tr
       \<or> (\<exists>b. snd (purchaseData net p tr) =
                tr @ [\<lparr>req_endpoint = ''/data'', req_method = ''POST'', req_body = Some b\<rparr>]
             \<and> (''plan_id'', JNumber (Num 0)) \<notin> set b
             \<and> (''package_code'', JString []) \<notin> set b))
   \<and> (\<forall>ph. DataWalletVendParams.phone q = Some ph \<and> ph \<noteq> []
        \<and> (DataWalletVendParams.packageCode q = None \<or> DataWalletVendParams.packageCode q = Some [])
        \<and> (DataWalletVendParams.planId q = None \<or> DataWalletVendParams.planId q = Some (Num 0)) \<longrightarrow>
      (\<forall>net :: 'r transport. vendDataFromWallet net q tr =
          (Inl (Error (js ''Either packageCode or planId is required'')), tr)))
   \<and> (snd (vendDataFromWallet net q tr) = tr
       \<or> (\<exists>b. snd (vendDataFromWallet net q tr) =
                tr @ [\<lparr>req_endpoint = ''/data/wallet'', req_method = ''POST'', req_body = Some b\<rparr>]
             \<and> (''plan_id'', JNumber (Num 0)) \<notin> set b
             \<and> (''package_code'', JString []) \<notin> set b))"
proof -
  have a: "\<forall>net :: 'r transport. purchaseData net p tr =
          (Inl (Error (js ''Either packageCode or planId is required'')), tr)"
    if "DataPurchaseParams.phone p = Some ph \<and> ph \<noteq> []
        \<and> (DataPurchaseParams.packageCode p = None \<or> DataPurchaseParams.packageCode p = Some [])
        \<and> (DataPurchaseParams.planId p = None \<or> DataPurchaseParams.planId p = Some (Num 0))" for ph
  proof -
    from that have "truthy (of_string (DataPurchaseParams.phone p))"
      "\<not> truthy (of_string (DataPurchaseParams.packageCode p))"
      "\<not> truthy (of_number (DataPurchaseParams.planId p))" by auto
    then show ?thesis by (simp add: purchaseData_no_plan)
  qed
  have b: "snd (purchaseData net p tr) = tr
       \<or> (\<exists>b. snd (purchaseData net p tr) =
                tr @ [\<lparr>req_endpoint = ''/data'', req_method = ''POST'', req_body = Some b\<rparr>]
             \<and> (''plan_id'', JNumber (Num 0)) \<notin> set b
             \<and> (''package_code'', JString []) \<notin> set b)"
  proof (cases "truthy (of_string (DataPurchaseParams.phone p))
      \<and> (truthy (of_string (DataPurchaseParams.packageCode p))
           \<or> truthy (of_number (DataPurchaseParams.planId p)))")
    case True
    then have t: "truthy (of_string (DataPurchaseParams.phone p))"
      "truthy (of_string (DataPurchaseParams.packageCode p))
           \<or> truthy (of_number (DataPurchaseParams.planId p))" by blast+
    from purchaseData_sends[OF t, of net tr] obtain b where
      run: "snd (purchaseData net p tr) =
              tr @ [\<lparr>req_endpoint = ''/data'', req_method = ''POST'', req_body = Some b\<rparr>]"
      and pc: "map_of b ''package_code'' =
              (if truthy (of_string (DataPurchaseParams.packageCode p))
               then Some (of_string (DataPurchaseParams.packageCode p)) else None)"
      and pid: "map_of b ''plan_id'' =
              (if truthy (of_number (DataPurchaseParams.planId p))
                  \<and> \<not> truthy (of_string (DataPurchaseParams.packageCode p))
               then Some (of_number (DataPurchaseParams.planId p)) else None)"
      and d: "distinct (map fst b)" by auto
    have "(''plan_id'', JNumber (Num 0)) \<notin> set b"
    proof
      assume "(''plan_id'', JNumber (Num 0)) \<in> set b"
      with d have "map_of b ''plan_id'' = Some (JNumber (Num 0))" by simp
      with pid show False using truthy_not_falsy by (fastforce split: if_splits)
    qed
    moreover have "(''package_code'', JString []) \<notin> set b"
    proof
      assume "(''package_code'', JString []) \<in> set b"
      with d have "map_of b ''package_code'' = Some (JString [])" by simp
      with pc show False using truthy_not_falsy by (fastforce split: if_splits)
    qed
    ultimately show ?thesis using run by blast
  next
    case False
    then have "snd (purchaseData net p tr) = tr"
      using purchaseData_no_phone[of p net tr] purchaseData_no_plan[of p net tr]
      by (cases "truthy (of_string (DataPurchaseParams.phone p))") auto
    then show ?thesis by simp
  qed
  have a': "\<forall>net :: 'r transport. vendDataFromWallet net q tr =
          (Inl (Error (js ''Either packageCode or planId is required'')), tr)"
    if "DataWalletVendParams.phone q = Some ph \<and> ph \<noteq> []
        \<and> (DataWalletVendParams.packageCode q = None \<or> DataWalletVendParams.packageCode q = Some [])
        \<and> (DataWalletVendParams.planId q = None \<or> DataWalletVendParams.planId q = Some (Num 0))" for ph
  proof -
    from that have "truthy (of_string (DataWalletVendParams.phone q))"
      "\<not> truthy (of_string (DataWalletVendParams.packageCode q))"
      "\<not> truthy (of_number (DataWalletVendParams.planId q))" by auto
    then show ?thesis by (simp add: vendDataFromWallet_no_plan)
  qed
  have b': "snd (vendDataFromWallet net q tr) = tr
       \<or> (\<exists>b. snd (vendDataFromWallet net q tr) =
                tr @ [\<lparr>req_endpoint = ''/data/wallet'', req_method = ''POST'', req_body = Some b\<rparr>]
             \<and> (''plan_id'', JNumber (Num 0)) \<notin> set b
             \<and> (''package_code'', JString []) \<notin> set b)"
  proof (cases "truthy (of_string (DataWalletVendParams.phone q))
      \<and> (truthy (of_string (DataWalletVendParams.packageCode q))
           \<or> truthy (of_number (DataWalletVendParams.planId q)))
      \<and> (\<not> truthy (of_string (DataWalletVendParams.processType q))
         \<or> array_includes [js ''queue'', js ''instant'']
              (of_string (DataWalletVendParams.processType q)))")
    case True
    then have t: "truthy (of_string (DataWalletVendParams.phone q))"
      "truthy (of_string (DataWalletVendParams.packageCode q))
           \<or> truthy (of_number (DataWalletVendParams.planId q))"
      "\<not> truthy (of_string (DataWalletVendParams.processType q))
         \<or> array_includes [js ''queue'', js ''instant'']
              (of_string (DataWalletVendParams.processType q))" by blast+
    from vendDataFromWallet_sends[OF t, of net tr] obtain b where
      run: "snd (vendDataFromWallet net q tr) =
              tr @ [\<lparr>req_endpoint = ''/data/wallet'', req_method = ''POST'', req_body = Some b\<rparr>]"
      and pc: "map_of b ''package_code'' =
              (if truthy (of_string (DataWalletVendParams.packageCode q))
               then Some (of_string (DataWalletVendParams.packageCode q)) else None)"
      and pid: "map_of b ''plan_id'' =
              (if truthy (of_number (DataWalletVendParams.planId q))
                  \<and> \<not> truthy (of_string (DataWalletVendParams.packageCode q))
               then Some (of_number (DataWalletVendParams.planId q)) else None)"
      and d: "distinct (map fst b)" by auto
    have "(''plan_id'', JNumber (Num 0)) \<notin> set b"
    proof
      assume "(''plan_id'', JNumber (Num 0)) \<in> set b"
      with d have "map_of b ''plan_id'' = Some (JNumber (Num 0))" by simp
      with pid show False using truthy_not_falsy by (fastforce split: if_splits)
    qed
    moreover have "(''package_code'', JString []) \<notin> set b"
    proof
      assume "(''package_code'', JString []) \<in> set b"
      with d have "map_of b ''package_code'' = Some (JString [])" by simp
      with pc show False using truthy_not_falsy by (fastforce split: if_splits)
    qed
    ultimately show ?thesis using run by blast
  next
    case False
    then consider (phone) "\<not> truthy (of_string (DataWalletVendParams.phone q))"
      | (plan) "truthy (of_string (DataWalletVendParams.phone q))"
          "\<not> truthy (of_string (DataWalletVendParams.packageCode q))"
          "\<not> truthy (of_number (DataWalletVendParams.planId q))"
      | (ptype) "truthy (of_string (DataWalletVendParams.phone q))"
          "truthy (of_string (DataWalletVendParams.packageCode q))
            \<or> truthy (of_number (DataWalletVendParams.planId q))"
          "truthy (of_string (DataWalletVendParams.processType q))"
          "\<not> array_includes [js ''queue'', js ''instant'']
               (of_string (DataWalletVendParams.processType q))"
      by blast
    then have "snd (vendDataFromWallet net q tr) = tr"
    proof cases
      case phone
      then show ?thesis by (simp add: vendDataFromWallet_no_phone)
    next
      case plan
      then show ?thesis by (simp add: vendDataFromWallet_no_plan)
    next
      case ptype
      then show ?thesis using vendDataFromWallet_bad_processType[of q net tr] by simp
    qed
    then show ?thesis by simp
  qed
  from a b a' b' show ?thesis by blast
qed

text \<open>
  Instances: only a \<open>planId\<close> of zero; an empty \<open>packageCode\<close> with a \<open>planId\<close> of zero.
\<close>

theorem falsy_plan_identifiers_absent_witness:
  "(\<forall>net :: unit transport. purchaseData net
       \<lparr>DataPurchaseParams.phone = Some (js ''08012345678''), packageCode = None,
        planId = Some (Num 0), maxAmount = None, callbackUrl = None,
        customerReference = None\<rparr> []
      = (Inl (Error (js ''Either packageCode or planId is required'')), []))
   \<and> (\<forall>net :: unit transport. vendDataFromWallet net
       \<lparr>DataWalletVendParams.phone = Some (js ''08012345678''), packageCode = Some (js ''''),
        planId = Some (Num 0), processType = None, callbackUrl = None,
        customerReference = None\<rparr> []
      = (Inl (Error (js ''Either packageCode or planId is required'')), []))"
  using
    falsy_plan_identifiers_absent[where net = accepting_server and tr = "[]"
      and p = "\<lparr>DataPurchaseParams.phone = Some (js ''08012345678''), packageCode = None,
        planId = Some (Num 0), maxAmount = None, callbackUrl = None,
        customerReference = None\<rparr>"
      and q = "\<lparr>DataWalletVendParams.phone = Some (js ''08012345678''),
        packageCode = Some (js ''''), planId = Some (Num 0), processType = None,
        callbackUrl = None, customerReference = None\<rparr>"]
  by (simp add: js_nonempty)

text \<open>
  Without the restriction to a non-empty phone the property fails: the phone is checked
  first, so a call that supplies only a \<open>planId\<close> of zero, its phone empty or missing, is
  rejected with \<open>phone is required\<close>.
\<close>

theorem falsy_plan_identifiers_counterexample:
  "purchaseData accepting_server
     \<lparr>DataPurchaseParams.phone = Some (js ''''), packageCode = None, planId = Some (Num 0),
      maxAmount = None, callbackUrl = None, customerReference = None\<rparr> []
     = (Inl (Error (js ''phone is required'')), [])
   \<and> purchaseData accepting_server
     \<lparr>DataPurchaseParams.phone = None, packageCode = None, planId = Some (Num 0),
      maxAmount = None, callbackUrl = None, customerReference = None\<rparr> []
     = (Inl (Error (js ''phone is required'')), [])
   \<and> js ''phone is required'' \<noteq> js ''Either packageCode or planId is required''"
  by (simp add: purchaseData_def js_def)

section \<open>The claims about the catalog operations\<close>

lemma getDataPlans_response:
  assumes "net \<lparr>req_endpoint = ''/data/plans'', req_method = ''GET'', req_body = None\<rparr>
             = Inr response"
  shows "getDataPlans net tr =
           (Inr (APIResponse.data response),
            tr @ [\<lparr>req_endpoint = ''/data/plans'', req_method = ''GET'', req_body = None\<rparr>])"
  using assms by (simp add: getDataPlans_def makeRequest_def)

lemma example_fields:
  "network_operator example_plan_mtn = js ''mtn''" "network_operator example_plan_glo = js ''glo''"
  "package_code example_plan_mtn = js ''MTN_1GB''" "package_code example_plan_glo = js ''GLO_2GB''"
  "regular_price example_plan_mtn = Num 300" "agent_price example_plan_mtn = Num 290"
  "dealer_price example_plan_mtn = Num 0"
  "success example_catalog" "DataPlansResponse.data example_catalog = Some [example_plan_mtn, example_plan_glo]"
  "\<not> success failed_catalog"
  by (simp_all add: example_plan_mtn_def example_plan_glo_def example_catalog_def failed_catalog_def)

lemma example_strings:
  "js ''glo'' \<noteq> js ''mtn''" "js ''MTN_1GB'' \<noteq> js ''GLO_2GB''"
  "js ''MTN_1GB'' \<noteq> js ''MTN_9GB''" "js ''GLO_2GB'' \<noteq> js ''MTN_9GB''"
  by (simp_all add: js_def)

lemma findDataPlan_example:
  "findDataPlan (catalog_server example_catalog) (js ''MTN_1GB'') [] =
     (Inr (Some example_plan_mtn),
      [\<lparr>req_endpoint = ''/data/plans'', req_method = ''GET'', req_body = None\<rparr>])"
  "findDataPlan (catalog_server example_catalog) (js ''MTN_9GB'') [] =
     (Inr None,
      [\<lparr>req_endpoint = ''/data/plans'', req_method = ''GET'', req_body = None\<rparr>])"
  by (simp_all add: findDataPlan_def getDataPlans_def makeRequest_def catalog_server_def
      example_fields example_strings)

text \<open>
  C4. For an operator among mtn, airtel, glo and 9mobile and any envelope the remote side
  answers \<open>GET /data/plans\<close> with, \<open>getDataPlansByOperator\<close> makes that one request; when
  the envelope's \<open>success\<close> flag is true and its plan list is present, it returns the
  entries of the list whose \<open>network_operator\<close> equals the argument, in catalog order;
  when the flag is false or the list is absent, it returns the empty list and does not
  raise.
\<close>

theorem getDataPlansByOperator_filters:
  assumes "operator \<in> set [js ''mtn'', js ''airtel'', js ''glo'', js ''9mobile'']"
    and "net \<lparr>req_endpoint = ''/data/plans'', req_method = ''GET'', req_body = None\<rparr>
           = Inr response"
    and "APIResponse.data response = envelope"
  shows "snd (getDataPlansByOperator net operator tr) =
           tr @ [\<lparr>req_endpoint = ''/data/plans'', req_method = ''GET'', req_body = None\<rparr>]
       \<and> (\<forall>plans. success envelope \<and> DataPlansResponse.data envelope = Some plans \<longrightarrow>
            fst (getDataPlansByOperator net operator tr) =
              Inr (filter (\<lambda>plan. network_operator plan = operator) plans))
       \<and> (\<not> success envelope \<or> DataPlansResponse.data envelope = None \<longrightarrow>
            fst (getDataPlansByOperator net operator tr) = Inr [])"
proof -
  from assms(1) have ok: "array_includes network_operators (JString operator)"
    by (auto simp: array_includes_def network_operators_def)
  have run: "getDataPlansByOperator net operator tr =
     (case (success envelope, DataPlansResponse.data envelope) of
        (True, Some plans) \<Rightarrow>
          (Inr (filter (\<lambda>plan. network_operator plan = operator) plans),
           tr @ [\<lparr>req_endpoint = ''/data/plans'', req_method = ''GET'', req_body = None\<rparr>])
      | _ \<Rightarrow> (Inr [], tr @ [\<lparr>req_endpoint = ''/data/plans'', req_method = ''GET'', req_body = None\<rparr>]))"
    using ok assms(2,3)
    by (simp add: getDataPlansByOperator_def getDataPlans_response[of net response])
  show ?thesis
    unfolding run by (auto split: bool.splits option.splits)
qed

text \<open>
  Instances: the example catalog filtered by mtn; a catalog whose flag is false.
\<close>

theorem getDataPlansByOperator_filters_witness:
  "getDataPlansByOperator (catalog_server example_catalog) (js ''mtn'') [] =
     (Inr [example_plan_mtn],
      [\<lparr>req_endpoint = ''/data/plans'', req_method = ''GET'', req_body = None\<rparr>])
   \<and> getDataPlansByOperator (catalog_server failed_catalog) (js ''mtn'') [] =
     (Inr [],
      [\<lparr>req_endpoint = ''/data/plans'', req_method = ''GET'', req_body = None\<rparr>])"
proof -
  have op: "js ''mtn'' \<in> set [js ''mtn'', js ''airtel'', js ''glo'', js ''9mobile'']" by simp
  note a = getDataPlansByOperator_filters[OF op, where net = "catalog_server example_catalog"
      and response = "\<lparr>statusCode = 200, data = example_catalog\<rparr>"
      and envelope = example_catalog and tr = "[]"]
  note b = getDataPlansByOperator_filters[OF op, where net = "catalog_server failed_catalog"
      and response = "\<lparr>statusCode = 200, data = failed_catalog\<rparr>"
      and envelope = failed_catalog and tr = "[]"]
  have "fst (getDataPlansByOperator (catalog_server example_catalog) (js ''mtn'') []) =
          Inr [example_plan_mtn]"
    and "snd (getDataPlansByOperator (catalog_server example_catalog) (js ''mtn'') []) =
          [\<lparr>req_endpoint = ''/data/plans'', req_method = ''GET'', req_body = None\<rparr>]"
    and "fst (getDataPlansByOperator (catalog_server failed_catalog) (js ''mtn'') []) = Inr []"
    and "snd (getDataPlansByOperator (catalog_server failed_catalog) (js ''mtn'') []) =
          [\<lparr>req_endpoint = ''/data/plans'', req_method = ''GET'', req_body = None\<rparr>]"
    using a b by (simp_all add: catalog_server_def example_fields example_strings)
  then show ?thesis by (simp add: prod_eq_iff)
qed

text \<open>
  C6. For every package code and any envelope the remote side answers \<open>GET /data/plans\<close>
  with, \<open>findDataPlan\<close> makes that one request; it returns null when the envelope's
  \<open>success\<close> flag is false or its plan list is absent, and when no entry of the list has
  the package code; otherwise it returns the first entry whose \<open>package_code\<close> equals the
  argument.
\<close>

theorem findDataPlan_first_match:
  assumes "net \<lparr>req_endpoint = ''/data/plans'', req_method = ''GET'', req_body = None\<rparr>
           = Inr response"
    and "APIResponse.data response = envelope"
  shows "snd (findDataPlan net code tr) =
           tr @ [\<lparr>req_endpoint = ''/data/plans'', req_method = ''GET'', req_body = None\<rparr>]
       \<and> (\<not> success envelope \<or> DataPlansResponse.data envelope = None \<longrightarrow>
            fst (findDataPlan net code tr) = Inr None)
       \<and> (\<forall>plans. success envelope \<and> DataPlansResponse.data envelope = Some plans \<longrightarrow>
            ((\<forall>plan \<in> set plans. package_code plan \<noteq> code) \<longrightarrow>
               fst (findDataPlan net code tr) = Inr None)
          \<and> (\<forall>i. i < length plans \<and> package_code (plans ! i) = code
                  \<and> (\<forall>j < i. package_code (plans ! j) \<noteq> code) \<longrightarrow>
               fst (findDataPlan net code tr) = Inr (Some (plans ! i))))"
proof -
  have run: "findDataPlan net code tr =
     (case (success envelope, DataPlansResponse.data envelope) of
        (True, Some plans) \<Rightarrow>
          (Inr (find (\<lambda>plan. package_code plan = code) plans),
           tr @ [\<lparr>req_endpoint = ''/data/plans'', req_method = ''GET'', req_body = None\<rparr>])
      | _ \<Rightarrow> (Inr None, tr @ [\<lparr>req_endpoint = ''/data/plans'', req_method = ''GET'', req_body = None\<rparr>]))"
    using assms by (simp add: findDataPlan_def getDataPlans_response[of net response])
  have none: "find (\<lambda>plan. package_code plan = code) plans = None"
    if "\<forall>plan \<in> set plans. package_code plan \<noteq> code" for plans
    using that by (simp add: find_None_iff)
  have first: "find (\<lambda>plan. package_code plan = code) plans = Some (plans ! i)"
    if "i < length plans \<and> package_code (plans ! i) = code
          \<and> (\<forall>j < i. package_code (plans ! j) \<noteq> code)" for plans i
    using that by (auto simp: find_Some_iff)
  show ?thesis
    unfolding run using none first by (auto split: bool.splits option.splits)
qed

text \<open>
  Instances: the second entry of the example catalog, an unknown code, a catalog whose
  flag is false.
\<close>

theorem findDataPlan_first_match_witness:
  "findDataPlan (catalog_server example_catalog) (js ''GLO_2GB'') [] =
     (Inr (Some example_plan_glo),
      [\<lparr>req_endpoint = ''/data/plans'', req_method = ''GET'', req_body = None\<rparr>])
   \<and> findDataPlan (catalog_server example_catalog) (js ''MTN_9GB'') [] =
     (Inr None,
      [\<lparr>req_endpoint = ''/data/plans'', req_method = ''GET'', req_body = None\<rparr>])
   \<and> findDataPlan (catalog_server failed_catalog) (js ''MTN_1GB'') [] =
     (Inr None,
      [\<lparr>req_endpoint = ''/data/plans'', req_method = ''GET'', req_body = None\<rparr>])"
proof -
  note a = findDataPlan_first_match[where net = "catalog_server example_catalog"
      and response = "\<lparr>statusCode = 200, data = example_catalog\<rparr>"
      and envelope = example_catalog and tr = "[]" and code = "js ''GLO_2GB''"]
  note b = findDataPlan_first_match[where net = "catalog_server example_catalog"
      and response = "\<lparr>statusCode = 200, data = example_catalog\<rparr>"
      and envelope = example_catalog and tr = "[]" and code = "js ''MTN_9GB''"]
  note c = findDataPlan_first_match[where net = "catalog_server failed_catalog"
      and response = "\<lparr>statusCode = 200, data = failed_catalog\<rparr>"
      and envelope = failed_catalog and tr = "[]" and code = "js ''MTN_1GB''"]
  have idx: "(1::nat) < length [example_plan_mtn, example_plan_glo]
     \<and> package_code ([example_plan_mtn, example_plan_glo] ! 1) = js ''GLO_2GB''
     \<and> (\<forall>j<1. package_code ([example_plan_mtn, example_plan_glo] ! j) \<noteq> js ''GLO_2GB'')"
    by (simp add: example_fields example_strings)
  from a have "\<forall>i. i < length [example_plan_mtn, example_plan_glo]
       \<and> package_code ([example_plan_mtn, example_plan_glo] ! i) = js ''GLO_2GB''
       \<and> (\<forall>j<i. package_code ([example_plan_mtn, example_plan_glo] ! j) \<noteq> js ''GLO_2GB'') \<longrightarrow>
     fst (findDataPlan (catalog_server example_catalog) (js ''GLO_2GB'') []) =
       Inr (Some ([example_plan_mtn, example_plan_glo] ! i))"
    by (simp add: catalog_server_def example_fields)
  from this[rule_format, of 1, OF idx]
  have a1: "fst (findDataPlan (catalog_server example_catalog) (js ''GLO_2GB'') []) =
          Inr (Some example_plan_glo)"
    by simp
  have a2: "snd (findDataPlan (catalog_server example_catalog) (js ''GLO_2GB'') []) =
          [\<lparr>req_endpoint = ''/data/plans'', req_method = ''GET'', req_body = None\<rparr>]"
    using a by (simp add: catalog_server_def)
  have b1: "fst (findDataPlan (catalog_server example_catalog) (js ''MTN_9GB'') []) = Inr None"
    and b2: "snd (findDataPlan (catalog_server example_catalog) (js ''MTN_9GB'') []) =
          [\<lparr>req_endpoint = ''/data/plans'', req_method = ''GET'', req_body = None\<rparr>]"
    using b by (simp_all add: catalog_server_def example_fields example_strings)
  have c1: "fst (findDataPlan (catalog_server failed_catalog) (js ''MTN_1GB'') []) = Inr None"
    and c2: "snd (findDataPlan (catalog_server failed_catalog) (js ''MTN_1GB'') []) =
          [\<lparr>req_endpoint = ''/data/plans'', req_method = ''GET'', req_body = None\<rparr>]"
    using c by (simp_all add: catalog_server_def example_fields)
  from a1 a2 b1 b2 c1 c2 show ?thesis by (simp add: prod_eq_iff)
qed

text \<open>
  C5. Whatever plan \<open>findDataPlan\<close> finds for the package code in the fetched catalog,
  \<open>getDataPlanPrice\<close> with \<open>priceType\<close> omitted is \<open>getDataPlanPrice\<close> with \<open>regular\<close>; it
  returns null when no plan was found or when the price of the requested tier is zero or
  \<open>NaN\<close>, and otherwise that price: \<open>regular_price\<close> for regular, \<open>agent_price\<close> for agent,
  \<open>dealer_price\<close> for dealer.
\<close>

theorem getDataPlanPrice_tiers:
  assumes "findDataPlan net code tr = (Inr found, tr')"
  shows "getDataPlanPrice net code None tr = getDataPlanPrice net code (Some (js ''regular'')) tr
     \<and> getDataPlanPrice net code (Some (js ''regular'')) tr =
         (Inr (case found of None \<Rightarrow> None
               | Some plan \<Rightarrow> if regular_price plan = Num 0 \<or> regular_price plan = NaN then None
                              else Some (JNumber (regular_price plan))), tr')
     \<and> getDataPlanPrice net code (Some (js ''agent'')) tr =
         (Inr (case found of None \<Rightarrow> None
               | Some plan \<Rightarrow> if agent_price plan = Num 0 \<or> agent_price plan = NaN then None
                              else Some (JNumber (agent_price plan))), tr')
     \<and> getDataPlanPrice net code (Some (js ''dealer'')) tr =
         (Inr (case found of None \<Rightarrow> None
               | Some plan \<Rightarrow> if dealer_price plan = Num 0 \<or> dealer_price plan = NaN then None
                              else Some (JNumber (dealer_price plan))), tr')"
proof -
  have keys: "js ''regular'' @ js ''_price'' = js ''regular_price''"
    "js ''agent'' @ js ''_price'' = js ''agent_price''"
    "js ''dealer'' @ js ''_price'' = js ''dealer_price''"
    by (simp_all add: js_def)
  have distinct_keys: "js ''agent_price'' \<noteq> js ''regular_price''"
    "js ''dealer_price'' \<noteq> js ''regular_price''" "js ''dealer_price'' \<noteq> js ''agent_price''"
    by (simp_all add: js_def)
  have tr: "truthy (JNumber n) \<longleftrightarrow> \<not> (n = Num 0 \<or> n = NaN)" for n
    by (cases n) auto
  have a: "getDataPlanPrice net code None tr = getDataPlanPrice net code (Some (js ''regular'')) tr"
    by (simp add: getDataPlanPrice_def)
  have b: "getDataPlanPrice net code (Some (js ''regular'')) tr =
         (Inr (case found of None \<Rightarrow> None
               | Some plan \<Rightarrow> if regular_price plan = Num 0 \<or> regular_price plan = NaN then None
                              else Some (JNumber (regular_price plan))), tr')"
    using assms by (simp add: getDataPlanPrice_def keys plan_property_def tr split: option.splits)
  have c: "getDataPlanPrice net code (Some (js ''agent'')) tr =
         (Inr (case found of None \<Rightarrow> None
               | Some plan \<Rightarrow> if agent_price plan = Num 0 \<or> agent_price plan = NaN then None
                              else Some (JNumber (agent_price plan))), tr')"
    using assms
    by (simp add: getDataPlanPrice_def keys plan_property_def distinct_keys tr split: option.splits)
  have d: "getDataPlanPrice net code (Some (js ''dealer'')) tr =
         (Inr (case found of None \<Rightarrow> None
               | Some plan \<Rightarrow> if dealer_price plan = Num 0 \<or> dealer_price plan = NaN then None
                              else Some (JNumber (dealer_price plan))), tr')"
    using assms
    by (simp add: getDataPlanPrice_def keys plan_property_def distinct_keys tr split: option.splits)
  from a b c d show ?thesis by blast
qed

text \<open>
  Instances: the default tier, the agent tier, a dealer price of zero, an unknown code.
\<close>

theorem getDataPlanPrice_tiers_witness:
  "getDataPlanPrice (catalog_server example_catalog) (js ''MTN_1GB'') None [] =
     (Inr (Some (JNumber (Num 300))),
      [\<lparr>req_endpoint = ''/data/plans'', req_method = ''GET'', req_body = None\<rparr>])
   \<and> getDataPlanPrice (catalog_server example_catalog) (js ''MTN_1GB'') (Some (js ''agent'')) [] =
     (Inr (Some (JNumber (Num 290))),
      [\<lparr>req_endpoint = ''/data/plans'', req_method = ''GET'', req_body = None\<rparr>])
   \<and> getDataPlanPrice (catalog_server example_catalog) (js ''MTN_1GB'') (Some (js ''dealer'')) [] =
     (Inr None,
      [\<lparr>req_endpoint = ''/data/plans'', req_method = ''GET'', req_body = None\<rparr>])
   \<and> getDataPlanPrice (catalog_server example_catalog) (js ''MTN_9GB'') None [] =
     (Inr None,
      [\<lparr>req_endpoint = ''/data/plans'', req_method = ''GET'', req_body = None\<rparr>])"
  using getDataPlanPrice_tiers[OF findDataPlan_example(1)]
    getDataPlanPrice_tiers[OF findDataPlan_example(2)]
  by (simp add: example_fields)

end
